theory Spec2Isabelle
  imports Complex_Main
begin

section \<open>Data model of the line chart library\<close>

text \<open>
  JavaScript numbers are modelled as reals: the finite values. \<open>NaN\<close> (the one number that
  is \<open>!==\<close> to itself) is not represented, so \<open>!==\<close> on numbers, strings and booleans is
  plain inequality.
\<close>

type_synonym number = real

text \<open>
  Modelled from the spec: \<open>lib/scale_types.ts\<close> and \<open>lib/scale.ts\<close> are not among the
  sources. The spec gives two scale variants (linear and logarithmic-like) selected by a
  scale-type enum, and a scale is a stateless object; \<open>createScale\<close> is its construction.
\<close>

datatype ScaleType = LINEAR | LOG10

datatype Scale = Scale ScaleType

definition createScale :: "ScaleType \<Rightarrow> Scale" where
  "createScale t = Scale t"

text \<open>
  \<open>RendererType\<close> has the two members the code switches on. \<open>UNRECOGNIZED\<close> stands for
  any other runtime value of \<open>option.type\<close>: TypeScript's union type excludes it, a
  JavaScript caller or a cast does not.
\<close>

datatype RendererType = SVG | WEBGL | UNRECOGNIZED nat

record Dimension =
  dim_width :: number
  dim_height :: number

record Rect =
  rect_x :: number
  rect_y :: number
  rect_width :: number
  rect_height :: number

record Extent =
  ext_x :: "number \<times> number"
  ext_y :: "number \<times> number"

record DataSeries =
  series_id :: string
  points :: "(number \<times> number) list"

record DataSeriesMetadata =
  md_id :: string
  displayName :: string
  visible :: bool
  color :: string
  opacity :: number

text \<open>
  A \<open>DataSeriesMetadataMap\<close> handed to a function is its \<open>Object.entries\<close>: the keys in
  insertion order, each once. A value is \<open>None\<close> where the JavaScript value is
  \<open>undefined\<close>, which the declared type excludes and the host component can still pass.
  The chart's own map is read by key only.
\<close>

type_synonym MetadataEntries = "(string \<times> DataSeriesMetadata option) list"

type_synonym DataSeriesMetadataMap = "string \<rightharpoonup> DataSeriesMetadata"

datatype error = TypeError

subsection \<open>Collaborators of the chart\<close>

text \<open>
  Modelled from the spec: \<open>lib/coordinator.ts\<close> and \<open>lib/threejs_coordinator.ts\<close> are not
  among the sources. The coordinator's state is the device rect, the view-box rect and one
  scale per axis; its four setters replace state. The rects and scales of a fresh
  coordinator are placeholders that the chart's constructor and the host overwrite.
\<close>

datatype CoordinatorKind = BaseCoordinator | ThreeCoordinator

record Coordinator =
  coordinatorKind :: CoordinatorKind
  domContainerRect :: Rect
  viewBoxRect :: Rect
  xScale :: Scale
  yScale :: Scale

definition unit_rect :: Rect where
  "unit_rect = \<lparr>rect_x = 0, rect_y = 0, rect_width = 1, rect_height = 1\<rparr>"

definition Coordinator_new :: "CoordinatorKind \<Rightarrow> Coordinator" where
  "Coordinator_new k =
     \<lparr>coordinatorKind = k, domContainerRect = unit_rect, viewBoxRect = unit_rect,
      xScale = createScale LINEAR, yScale = createScale LINEAR\<rparr>"

text \<open>
  Modelled from the spec: \<open>lib/renderer\<close> is not among the sources. A renderer is one of
  two variants built on the container handle (the GPU one also on the device pixel ratio),
  is resized to a rect and flushes a frame.
\<close>

datatype RendererKind = SvgRenderer string | ThreeRenderer string number

record Renderer =
  rendererKind :: RendererKind
  surfaceRect :: "Rect option"

definition Renderer_new :: "RendererKind \<Rightarrow> Renderer" where
  "Renderer_new k = \<lparr>rendererKind = k, surfaceRect = None\<rparr>"

text \<open>
  Modelled from the spec: \<open>lib/series_line_view.ts\<close> is not among the sources. The view
  holds the working data set (replaced wholesale by \<open>setData\<close>), the layout rect and the
  paint-dirty flag, which \<open>markAsPaintDirty\<close> sets for the next frame.
\<close>

record SeriesLineView =
  data :: "DataSeries list"
  paintDirty :: bool
  layoutRect :: "Rect option"

definition SeriesLineView_new :: SeriesLineView where
  "SeriesLineView_new = \<lparr>data = [], paintDirty = True, layoutRect = None\<rparr>"

text \<open>
  What one call of \<open>internalOnlyDrawFrame\<close> reads: the data, the metadata map (through
  \<open>getMetadataMap\<close>), the coordinator, the layout rect and the paint-dirty flag.
\<close>

record FrameInputs =
  frame_data :: "DataSeries list"
  frame_metadata :: DataSeriesMetadataMap
  frame_coordinator :: Coordinator
  frame_layoutRect :: "Rect option"
  frame_paintDirty :: bool

datatype Event = DrawFrame FrameInputs | Flush | DrawEnd

subsection \<open>The chart\<close>

datatype Op =
    Resize Dimension
  | UpdateMetadata MetadataEntries
  | UpdateViewBox Extent
  | UpdateData "DataSeries list"
  | SetXScaleType ScaleType
  | SetYScaleType ScaleType
  | Dispose

text \<open>
  The fields of \<open>Chart\<close>. \<open>onDrawEnd\<close> is the host's callback, given by the chart
  operations it performs when called. \<open>animationFrameQueue\<close> counts this chart's callbacks
  waiting in \<open>requestAnimationFrame\<close>, and \<open>events\<close> records, in order, the frames drawn,
  the renderer's flushes and the calls of \<open>onDrawEnd\<close>.
\<close>

record Chart =
  renderer :: Renderer
  seriesLineView :: SeriesLineView
  coordinator :: Coordinator
  metadataMap :: DataSeriesMetadataMap
  onDrawEnd :: "Op list"
  shouldRedraw :: bool
  animationFrameQueue :: nat
  events :: "Event list"

record ChartOption =
  opt_type :: RendererType
  opt_container :: string
  opt_devicePixelRatio :: number
  opt_callbacks :: "Op list"
  opt_domDimension :: Dimension
  opt_xScaleType :: ScaleType
  opt_yScaleType :: ScaleType

definition scheduleRedraw :: "Chart \<Rightarrow> Chart" where
  "scheduleRedraw c =
     (if shouldRedraw c then c
      else c\<lparr>shouldRedraw := True, animationFrameQueue := animationFrameQueue c + 1\<rparr>)"

definition markAsPaintDirty :: "Chart \<Rightarrow> Chart" where
  "markAsPaintDirty c = c\<lparr>seriesLineView := (seriesLineView c)\<lparr>paintDirty := True\<rparr>\<rparr>"

definition dispose :: "Chart \<Rightarrow> Chart" where
  "dispose c = c"

definition setXScaleType :: "ScaleType \<Rightarrow> Chart \<Rightarrow> Chart" where
  "setXScaleType t c = c\<lparr>coordinator := (coordinator c)\<lparr>xScale := createScale t\<rparr>\<rparr>"

definition setYScaleType :: "ScaleType \<Rightarrow> Chart \<Rightarrow> Chart" where
  "setYScaleType t c = c\<lparr>coordinator := (coordinator c)\<lparr>yScale := createScale t\<rparr>\<rparr>"

definition dim_rect :: "Dimension \<Rightarrow> Rect" where
  "dim_rect d = \<lparr>rect_x = 0, rect_y = 0, rect_width = dim_width d, rect_height = dim_height d\<rparr>"

definition resize :: "Dimension \<Rightarrow> Chart \<Rightarrow> Chart" where
  "resize d c =
     scheduleRedraw
       (c\<lparr>coordinator := (coordinator c)\<lparr>domContainerRect := dim_rect d\<rparr>,
          renderer := (renderer c)\<lparr>surfaceRect := Some (dim_rect d)\<rparr>,
          seriesLineView := (seriesLineView c)\<lparr>layoutRect := Some (dim_rect d)\<rparr>\<rparr>)"

text \<open>
  The \<open>forEach\<close> of \<open>updateMetadata\<close>, on the pair of \<open>shouldRepaint\<close> and the chart's map.
  \<open>!existing\<close> short-circuits, so an entry without a prior value is stored unread; with a
  prior value the new one's fields are read, which throws when it is \<open>undefined\<close>.
\<close>

fun updateMetadata_forEach ::
  "MetadataEntries \<Rightarrow> bool \<times> DataSeriesMetadataMap \<Rightarrow> error + bool \<times> DataSeriesMetadataMap" where
  "updateMetadata_forEach [] st = Inr st"
| "updateMetadata_forEach ((k, metadata) # rest) (shouldRepaint, mm) =
     (case mm k of
        None \<Rightarrow> updateMetadata_forEach rest (True, mm(k := metadata))
      | Some existing \<Rightarrow>
          (case metadata of
             None \<Rightarrow> Inl TypeError
           | Some m \<Rightarrow>
               updateMetadata_forEach rest
                 (shouldRepaint \<or> color m \<noteq> color existing \<or> visible m \<noteq> visible existing
                    \<or> opacity m \<noteq> opacity existing,
                  mm(k := metadata))))"

definition updateMetadata :: "MetadataEntries \<Rightarrow> Chart \<Rightarrow> error + Chart" where
  "updateMetadata entries c =
     (case updateMetadata_forEach entries (False, metadataMap c) of
        Inl e \<Rightarrow> Inl e
      | Inr (shouldRepaint, mm) \<Rightarrow>
          Inr (scheduleRedraw
                 ((if shouldRepaint then markAsPaintDirty else (\<lambda>c. c)) (c\<lparr>metadataMap := mm\<rparr>))))"

definition extent_rect :: "Extent \<Rightarrow> Rect" where
  "extent_rect e =
     \<lparr>rect_x = fst (ext_x e), rect_y = fst (ext_y e),
      rect_width = snd (ext_x e) - fst (ext_x e),
      rect_height = snd (ext_y e) - fst (ext_y e)\<rparr>"

definition updateViewBox :: "Extent \<Rightarrow> Chart \<Rightarrow> Chart" where
  "updateViewBox e c =
     scheduleRedraw
       (markAsPaintDirty (c\<lparr>coordinator := (coordinator c)\<lparr>viewBoxRect := extent_rect e\<rparr>\<rparr>))"

definition updateData :: "DataSeries list \<Rightarrow> Chart \<Rightarrow> Chart" where
  "updateData d c = scheduleRedraw (c\<lparr>seriesLineView := (seriesLineView c)\<lparr>data := d\<rparr>\<rparr>)"

fun apply_op :: "Op \<Rightarrow> Chart \<Rightarrow> error + Chart" where
  "apply_op (Resize d) c = Inr (resize d c)"
| "apply_op (UpdateMetadata m) c = updateMetadata m c"
| "apply_op (UpdateViewBox e) c = Inr (updateViewBox e c)"
| "apply_op (UpdateData d) c = Inr (updateData d c)"
| "apply_op (SetXScaleType t) c = Inr (setXScaleType t c)"
| "apply_op (SetYScaleType t) c = Inr (setYScaleType t c)"
| "apply_op Dispose c = Inr (dispose c)"

text \<open>Calls made one after the other; an exception ends the sequence.\<close>

fun run_ops :: "Op list \<Rightarrow> Chart \<Rightarrow> error + Chart" where
  "run_ops [] c = Inr c"
| "run_ops (op # rest) c =
     (case apply_op op c of Inl e \<Rightarrow> Inl e | Inr c' \<Rightarrow> run_ops rest c')"

definition draw_inputs :: "Chart \<Rightarrow> FrameInputs" where
  "draw_inputs c =
     \<lparr>frame_data = data (seriesLineView c), frame_metadata = metadataMap c,
      frame_coordinator = coordinator c, frame_layoutRect = layoutRect (seriesLineView c),
      frame_paintDirty = paintDirty (seriesLineView c)\<rparr>"

text \<open>
  Modelled from the spec: \<open>internalOnlyDrawFrame\<close> of the absent series view draws the
  frame from what it reads and leaves the paint-dirty flag cleared, since the flag forces
  the next frame only.
\<close>

definition internalOnlyDrawFrame :: "Chart \<Rightarrow> Chart" where
  "internalOnlyDrawFrame c =
     c\<lparr>events := events c @ [DrawFrame (draw_inputs c)],
       seriesLineView := (seriesLineView c)\<lparr>paintDirty := False\<rparr>\<rparr>"

definition flush :: "Chart \<Rightarrow> Chart" where
  "flush c = c\<lparr>events := events c @ [Flush]\<rparr>"

definition call_onDrawEnd :: "Chart \<Rightarrow> error + Chart" where
  "call_onDrawEnd c = run_ops (onDrawEnd c) (c\<lparr>events := events c @ [DrawEnd]\<rparr>)"

definition redraw :: "Chart \<Rightarrow> error + Chart" where
  "redraw c = call_onDrawEnd (flush (internalOnlyDrawFrame c))"

text \<open>The closure handed to \<open>requestAnimationFrame\<close> by \<open>scheduleRedraw\<close>.\<close>

definition frame_callback :: "Chart \<Rightarrow> error + Chart" where
  "frame_callback c =
     (case redraw c of Inl e \<Rightarrow> Inl e | Inr c' \<Rightarrow> Inr (c'\<lparr>shouldRedraw := False\<rparr>))"

fun run_callbacks :: "nat \<Rightarrow> Chart \<Rightarrow> error + Chart" where
  "run_callbacks 0 c = Inr c"
| "run_callbacks (Suc n) c =
     (case frame_callback c of Inl e \<Rightarrow> Inl e | Inr c' \<Rightarrow> run_callbacks n c')"

text \<open>
  One animation frame of the browser: the callbacks queued before the frame run, and a
  callback requested while they run waits for the next frame.
\<close>

definition animation_frame :: "Chart \<Rightarrow> error + Chart" where
  "animation_frame c = run_callbacks (animationFrameQueue c) (c\<lparr>animationFrameQueue := 0\<rparr>)"

text \<open>
  The \<open>switch\<close> of the constructor has no default case: on any other kind it assigns
  neither \<open>coordinator\<close> nor \<open>renderer\<close>, and both stay \<open>undefined\<close>.
\<close>

definition select_backend :: "ChartOption \<Rightarrow> (Coordinator \<times> Renderer) option" where
  "select_backend opt =
     (case opt_type opt of
        SVG \<Rightarrow> Some (Coordinator_new BaseCoordinator,
                      Renderer_new (SvgRenderer (opt_container opt)))
      | WEBGL \<Rightarrow> Some (Coordinator_new ThreeCoordinator,
                        Renderer_new (ThreeRenderer (opt_container opt) (opt_devicePixelRatio opt)))
      | UNRECOGNIZED _ \<Rightarrow> None)"

text \<open>
  The constructor. After the \<open>switch\<close> it calls \<open>this.coordinator.setXScale\<close>, which reads
  a property of \<open>undefined\<close> and throws a TypeError when no case matched.
\<close>

definition Chart_new :: "ChartOption \<Rightarrow> error + Chart" where
  "Chart_new opt =
     (case select_backend opt of
        None \<Rightarrow> Inl TypeError
      | Some (coord, rend) \<Rightarrow>
          Inr (resize (opt_domDimension opt)
                 (setYScaleType (opt_yScaleType opt)
                    (setXScaleType (opt_xScaleType opt)
                       \<lparr>renderer = rend, seriesLineView = SeriesLineView_new,
                        coordinator = coord, metadataMap = Map.empty,
                        onDrawEnd = opt_callbacks opt, shouldRedraw = False,
                        animationFrameQueue = 0, events = []\<rparr>))))"

subsection \<open>Notions used to state the chart's properties\<close>


text \<open>The operations that end in \<open>scheduleRedraw\<close>.\<close>

fun schedules_redraw :: "Op \<Rightarrow> bool" where
  "schedules_redraw (Resize _) = True"
| "schedules_redraw (UpdateMetadata _) = True"
| "schedules_redraw (UpdateViewBox _) = True"
| "schedules_redraw (UpdateData _) = True"
| "schedules_redraw _ = False"

text \<open>A call whose argument has its declared type: no metadata value is \<open>undefined\<close>.\<close>

fun well_typed :: "Op \<Rightarrow> bool" where
  "well_typed (UpdateMetadata m) = (None \<notin> snd ` set m)"
| "well_typed _ = True"

definition entries_of :: "(string \<times> DataSeriesMetadata) list \<Rightarrow> MetadataEntries" where
  "entries_of m = map (\<lambda>(k, v). (k, Some v)) m"






text \<open>
  The chart when \<open>redraw\<close> has drawn and flushed the frame and \<open>onDrawEnd\<close> is entered, before
  the host's callback has made any call.
\<close>

definition after_draw :: "Chart \<Rightarrow> Chart" where
  "after_draw c =
     (flush (internalOnlyDrawFrame c))\<lparr>events := events c @ [DrawFrame (draw_inputs c), Flush, DrawEnd]\<rparr>"

definition paint_fields_differ :: "DataSeriesMetadata \<Rightarrow> DataSeriesMetadata \<Rightarrow> bool" where
  "paint_fields_differ m e =
     (color m \<noteq> color e \<or> visible m \<noteq> visible e \<or> opacity m \<noteq> opacity e)"

definition entry_repaints :: "DataSeriesMetadataMap \<Rightarrow> string \<times> DataSeriesMetadata \<Rightarrow> bool" where
  "entry_repaints prior kv =
     (case prior (fst kv) of None \<Rightarrow> True | Some e \<Rightarrow> paint_fields_differ (snd kv) e)"

definition then_run :: "error + 'a \<Rightarrow> ('a \<Rightarrow> error + 'b) \<Rightarrow> error + 'b" where
  "then_run r f = (case r of Inl e \<Rightarrow> Inl e | Inr c \<Rightarrow> f c)"

text \<open>The data sets of the frames drawn, in order.\<close>

fun drawn_data :: "Event list \<Rightarrow> DataSeries list list" where
  "drawn_data [] = []"
| "drawn_data (DrawFrame f # es) = frame_data f # drawn_data es"
| "drawn_data (_ # es) = drawn_data es"

section \<open>The host component\<close>

text \<open>
  \<open>LineChartComponent\<close> of the first unnamed source file. What it reads from outside
  itself is gathered in a record: the sizes of its DOM elements, the platform, and the
  functions of this repository that are not among the sources (\<open>niceDomain\<close> of
  \<open>lib/scale.ts\<close>, \<open>computeDataSeriesExtent\<close> and \<open>getRendererType\<close> of
  \<open>line_chart_internal_utils.ts\<close>), which are taken as they come.
\<close>

record DomDimensions =
  dom_main :: Dimension
  dom_yAxis :: Dimension
  dom_xAxis :: Dimension

record Host =
  clientDimensions :: DomDimensions
  chartEl :: string
  devicePixelRatio :: number
  isWebGl2Supported :: bool
  isOffscreenCanvasSupported :: bool
  getRendererType :: "RendererType \<Rightarrow> RendererType"
  niceDomain :: "Scale \<Rightarrow> number \<times> number \<Rightarrow> number \<times> number"
  computeDataSeriesExtent :: "DataSeries list \<Rightarrow> (string \<times> DataSeriesMetadata) list \<Rightarrow> Extent"

text \<open>
  The inputs \<open>seriesData\<close> and \<open>seriesMetadataMap\<close> are declared with \<open>!\<close> and hold a value
  of their type once bound; the metadata map is kept as its \<open>Object.entries\<close>. The field
  \<open>lineChart\<close> is the in-process \<open>Chart\<close>.

  Modelled from the spec: \<open>lib/worker/worker_chart.ts\<close> is not among the sources; the
  worker-proxied chart has the contract of \<open>Chart\<close>, so one model stands for both classes.
\<close>

record LineChartComponent =
  preferredRendererType :: RendererType
  seriesData :: "DataSeries list"
  defaultViewExtent :: "Extent option"
  seriesMetadataMap :: "(string \<times> DataSeriesMetadata) list"
  forceUseWorkerIfCanvas :: bool
  xScaleType :: ScaleType
  yScaleType :: ScaleType
  host_xScale :: Scale
  host_yScale :: Scale
  viewExtent :: Extent
  domDimensions :: DomDimensions
  lineChart :: "Chart option"
  dataExtent :: "Extent option"
  isDataUpdated :: bool
  isMetadataUpdated :: bool
  isViewExtentUpdated :: bool
  isDefaultViewExtentUpdated :: bool
  maybeSetViewExtentToDefault :: bool

definition DEFAULT_EXTENT :: Extent where
  "DEFAULT_EXTENT = \<lparr>ext_x = (0, 1), ext_y = (0, 1)\<rparr>"

definition zero_dimension :: Dimension where
  "zero_dimension = \<lparr>dim_width = 0, dim_height = 0\<rparr>"

text \<open>The field initialisers; \<open>yScale\<close> is created from \<open>xScaleType\<close>, as the source has it.\<close>

definition LineChartComponent_new :: "Host \<Rightarrow> LineChartComponent" where
  "LineChartComponent_new h =
     \<lparr>preferredRendererType = (if isWebGl2Supported h then WEBGL else SVG),
      seriesData = [], defaultViewExtent = None, seriesMetadataMap = [],
      forceUseWorkerIfCanvas = False, xScaleType = LINEAR, yScaleType = LINEAR,
      host_xScale = createScale LINEAR, host_yScale = createScale LINEAR,
      viewExtent = DEFAULT_EXTENT,
      domDimensions = \<lparr>dom_main = zero_dimension, dom_yAxis = zero_dimension,
                         dom_xAxis = zero_dimension\<rparr>,
      lineChart = None, dataExtent = None, isDataUpdated = False, isMetadataUpdated = False,
      isViewExtentUpdated = True, isDefaultViewExtentUpdated = False,
      maybeSetViewExtentToDefault = True\<rparr>"

text \<open>
  \<open>changes\<close> of \<open>ngOnChanges\<close>: which inputs changed, and for the metadata map the
  previous value (\<open>None\<close> when it was \<open>undefined\<close>). Angular has assigned the new values
  to the component's fields before it calls \<open>ngOnChanges\<close>.
\<close>

record SimpleChanges =
  ch_xScaleType :: bool
  ch_yScaleType :: bool
  ch_seriesData :: bool
  ch_defaultViewExtent :: bool
  ch_seriesMetadataMap :: "(string \<times> DataSeriesMetadata) list option option"

text \<open>
  Modelled from the spec: \<open>areExtentsEqual\<close> of \<open>lib/utils.ts\<close> is not among the sources;
  two extents are equal when their intervals are.
\<close>

definition areExtentsEqual :: "Extent \<Rightarrow> Extent \<Rightarrow> bool" where
  "areExtentsEqual a b = (ext_x a = ext_x b \<and> ext_y a = ext_y b)"

definition getDefaultViewExtent :: "Host \<Rightarrow> LineChartComponent \<Rightarrow> Extent" where
  "getDefaultViewExtent h s =
     (case defaultViewExtent s of
        Some d \<Rightarrow> d
      | None \<Rightarrow>
          (case dataExtent s of
             None \<Rightarrow> DEFAULT_EXTENT
           | Some e \<Rightarrow> \<lparr>ext_x = niceDomain h (host_xScale s) (ext_x e),
                        ext_y = niceDomain h (host_yScale s) (ext_y e)\<rparr>))"

text \<open>The \<open>for\<close> loop of \<open>shouldResetViewExtent\<close> over the entries of the current map.\<close>

fun visibility_loop ::
  "(string \<times> DataSeriesMetadata) list option \<Rightarrow> (string \<times> DataSeriesMetadata) list \<Rightarrow> bool" where
  "visibility_loop prevMetadataMap [] = False"
| "visibility_loop prevMetadataMap ((k, metadata) # rest) =
     (case (case prevMetadataMap of None \<Rightarrow> None | Some p \<Rightarrow> map_of p k) of
        None \<Rightarrow> True
      | Some prevMetadata \<Rightarrow>
          (if visible metadata \<noteq> visible prevMetadata then True
           else visibility_loop prevMetadataMap rest))"

definition shouldResetViewExtent :: "Host \<Rightarrow> SimpleChanges \<Rightarrow> LineChartComponent \<Rightarrow> bool" where
  "shouldResetViewExtent h changes s =
     (if ch_xScaleType changes \<or> ch_yScaleType changes then True
      else if \<not> areExtentsEqual (getDefaultViewExtent h s) (viewExtent s) then False
      else if ch_seriesData changes then True
      else (case ch_seriesMetadataMap changes of
              None \<Rightarrow> False
            | Some prevMetadataMap \<Rightarrow> visibility_loop prevMetadataMap (seriesMetadataMap s)))"

text \<open>
  \<open>metadata[id] = ...\<close> on an object: a key already there keeps its place. (JavaScript
  lists integer-like keys first; the chart's loop over the entries gives the same result
  in any order of distinct keys.)
\<close>

fun assign :: "string \<Rightarrow> 'v \<Rightarrow> (string \<times> 'v) list \<Rightarrow> (string \<times> 'v) list" where
  "assign k v [] = [(k, v)]"
| "assign k v ((k', v') # rest) =
     (if k = k' then (k, v) # rest else (k', v') # assign k v rest)"

definition required_metadata :: "LineChartComponent \<Rightarrow> MetadataEntries" where
  "required_metadata s =
     foldl (\<lambda>metadata d. assign (series_id d) (map_of (seriesMetadataMap s) (series_id d)) metadata)
       [] (seriesData s)"

definition updateProp_metadata :: "LineChartComponent \<Rightarrow> Chart \<Rightarrow> error + LineChartComponent \<times> Chart" where
  "updateProp_metadata s c =
     (if isMetadataUpdated s \<or> isDataUpdated s then
        (case updateMetadata (required_metadata s) c of
           Inl e \<Rightarrow> Inl e
         | Inr c' \<Rightarrow> Inr (s\<lparr>isMetadataUpdated := False\<rparr>, c'))
      else Inr (s, c))"

definition updateProp_data :: "LineChartComponent \<times> Chart \<Rightarrow> LineChartComponent \<times> Chart" where
  "updateProp_data sc =
     (case sc of (s, c) \<Rightarrow>
        if isDataUpdated s then (s\<lparr>isDataUpdated := False\<rparr>, updateData (seriesData s) c)
        else (s, c))"

definition updateProp_viewExtent :: "Host \<Rightarrow> LineChartComponent \<Rightarrow> LineChartComponent" where
  "updateProp_viewExtent h s =
     (case (if isDefaultViewExtentUpdated s then defaultViewExtent s else None) of
        Some d \<Rightarrow> s\<lparr>viewExtent := d\<rparr>
      | None \<Rightarrow>
          if maybeSetViewExtentToDefault s then
            (let s1 = s\<lparr>dataExtent :=
                          Some (computeDataSeriesExtent h (seriesData s) (seriesMetadataMap s))\<rparr>
             in s1\<lparr>viewExtent := getDefaultViewExtent h s1\<rparr>)
          else s)"

definition updateProp_viewBox :: "Host \<Rightarrow> LineChartComponent \<times> Chart \<Rightarrow> LineChartComponent" where
  "updateProp_viewBox h sc =
     (case sc of (s, c) \<Rightarrow>
        let viewExtentChange =
              (isDefaultViewExtentUpdated s \<or> isViewExtentUpdated s \<or> maybeSetViewExtentToDefault s);
            s1 = updateProp_viewExtent h s
        in if viewExtentChange then
             s1\<lparr>isDefaultViewExtentUpdated := False, isViewExtentUpdated := False,
                maybeSetViewExtentToDefault := False,
                lineChart := Some (updateViewBox (viewExtent s1) c)\<rparr>
           else s1\<lparr>lineChart := Some c\<rparr>)"

text \<open>
  \<open>updateProp\<close>, in the order of its four blocks: metadata, data, the view extent, the
  chart's view box. The chart's \<open>updateMetadata\<close> can throw, which ends the call.
\<close>

definition updateProp :: "Host \<Rightarrow> LineChartComponent \<Rightarrow> error + LineChartComponent" where
  "updateProp h s =
     (case lineChart s of
        None \<Rightarrow> Inr s
      | Some c \<Rightarrow>
          (case updateProp_metadata s c of
             Inl e \<Rightarrow> Inl e
           | Inr sc \<Rightarrow> Inr (updateProp_viewBox h (updateProp_data sc))))"

definition ngOnChanges_flags :: "SimpleChanges \<Rightarrow> LineChartComponent \<Rightarrow> LineChartComponent" where
  "ngOnChanges_flags changes s =
     (let s1 = (if ch_xScaleType changes
                then s\<lparr>host_xScale := createScale (xScaleType s),
                       lineChart := map_option (setXScaleType (xScaleType s)) (lineChart s)\<rparr>
                else s);
          s2 = (if ch_yScaleType changes
                then s1\<lparr>host_yScale := createScale (yScaleType s1),
                        lineChart := map_option (setYScaleType (yScaleType s1)) (lineChart s1)\<rparr>
                else s1);
          s3 = (if ch_seriesData changes then s2\<lparr>isDataUpdated := True\<rparr> else s2);
          s4 = (if ch_defaultViewExtent changes then s3\<lparr>isDefaultViewExtentUpdated := True\<rparr> else s3)
      in if ch_seriesMetadataMap changes \<noteq> None then s4\<lparr>isMetadataUpdated := True\<rparr> else s4)"

definition ngOnChanges :: "Host \<Rightarrow> SimpleChanges \<Rightarrow> LineChartComponent \<Rightarrow> error + LineChartComponent" where
  "ngOnChanges h changes s =
     (let s1 = ngOnChanges_flags changes s
      in updateProp h (s1\<lparr>maybeSetViewExtentToDefault := shouldResetViewExtent h changes s1\<rparr>))"

definition onViewExtentChanged :: "Host \<Rightarrow> Extent \<Rightarrow> LineChartComponent \<Rightarrow> error + LineChartComponent" where
  "onViewExtentChanged h e s = updateProp h (s\<lparr>isViewExtentUpdated := True, viewExtent := e\<rparr>)"

definition onViewExtentReset :: "Host \<Rightarrow> LineChartComponent \<Rightarrow> error + LineChartComponent" where
  "onViewExtentReset h s = updateProp h (s\<lparr>maybeSetViewExtentToDefault := True\<rparr>)"

definition chart_params :: "Host \<Rightarrow> LineChartComponent \<Rightarrow> RendererType \<Rightarrow> ChartOption option" where
  "chart_params h s rendererType =
     (case rendererType of
        SVG \<Rightarrow>
          Some \<lparr>opt_type = SVG, opt_container = chartEl h, opt_devicePixelRatio = devicePixelRatio h,
                opt_callbacks = [], opt_domDimension = dom_main (domDimensions s),
                opt_xScaleType = xScaleType s, opt_yScaleType = yScaleType s\<rparr>
      | WEBGL \<Rightarrow>
          Some \<lparr>opt_type = WEBGL, opt_container = chartEl h, opt_devicePixelRatio = devicePixelRatio h,
                opt_callbacks = [], opt_domDimension = dom_main (domDimensions s),
                opt_xScaleType = xScaleType s, opt_yScaleType = yScaleType s\<rparr>
      | UNRECOGNIZED _ \<Rightarrow> None)"

definition initializeChart :: "Host \<Rightarrow> LineChartComponent \<Rightarrow> error + LineChartComponent" where
  "initializeChart h s =
     (if lineChart s \<noteq> None then Inr s
      else
        (let s1 = s\<lparr>domDimensions := clientDimensions h\<rparr>
         in case chart_params h s1 (getRendererType h (preferredRendererType s)) of
              None \<Rightarrow> Inr s1
            | Some params \<Rightarrow>
                (case Chart_new params of
                   Inl e \<Rightarrow> Inl e
                 | Inr c \<Rightarrow> Inr (s1\<lparr>lineChart := Some c\<rparr>))))"

definition ngAfterViewInit :: "Host \<Rightarrow> LineChartComponent \<Rightarrow> error + LineChartComponent" where
  "ngAfterViewInit h s = then_run (initializeChart h s) (updateProp h)"

definition ngOnDestroy :: "LineChartComponent \<Rightarrow> LineChartComponent" where
  "ngOnDestroy s = s\<lparr>lineChart := map_option dispose (lineChart s)\<rparr>"

definition onViewResize :: "Host \<Rightarrow> LineChartComponent \<Rightarrow> LineChartComponent" where
  "onViewResize h s =
     (case lineChart s of
        None \<Rightarrow> s
      | Some c \<Rightarrow>
          s\<lparr>domDimensions := clientDimensions h,
            lineChart := Some (resize (dom_main (clientDimensions h)) c)\<rparr>)"

text \<open>
  Angular's binding of changed inputs: the new values are assigned, then \<open>ngOnChanges\<close> is
  called with the record of what changed.
\<close>

record InputUpdate =
  new_xScaleType :: "ScaleType option"
  new_yScaleType :: "ScaleType option"
  new_seriesData :: "DataSeries list option"
  new_defaultViewExtent :: "Extent option option"
  new_seriesMetadataMap :: "(string \<times> DataSeriesMetadata) list option"

definition no_update :: InputUpdate where
  "no_update =
     \<lparr>new_xScaleType = None, new_yScaleType = None, new_seriesData = None,
      new_defaultViewExtent = None, new_seriesMetadataMap = None\<rparr>"

definition assign_inputs :: "InputUpdate \<Rightarrow> LineChartComponent \<Rightarrow> LineChartComponent" where
  "assign_inputs u s =
     s\<lparr>xScaleType := (case new_xScaleType u of None \<Rightarrow> xScaleType s | Some t \<Rightarrow> t),
       yScaleType := (case new_yScaleType u of None \<Rightarrow> yScaleType s | Some t \<Rightarrow> t),
       seriesData := (case new_seriesData u of None \<Rightarrow> seriesData s | Some d \<Rightarrow> d),
       defaultViewExtent :=
         (case new_defaultViewExtent u of None \<Rightarrow> defaultViewExtent s | Some e \<Rightarrow> e),
       seriesMetadataMap :=
         (case new_seriesMetadataMap u of None \<Rightarrow> seriesMetadataMap s | Some m \<Rightarrow> m)\<rparr>"

definition changes_of :: "InputUpdate \<Rightarrow> LineChartComponent \<Rightarrow> SimpleChanges" where
  "changes_of u s =
     \<lparr>ch_xScaleType = (new_xScaleType u \<noteq> None), ch_yScaleType = (new_yScaleType u \<noteq> None),
      ch_seriesData = (new_seriesData u \<noteq> None),
      ch_defaultViewExtent = (new_defaultViewExtent u \<noteq> None),
      ch_seriesMetadataMap =
        (case new_seriesMetadataMap u of None \<Rightarrow> None | Some _ \<Rightarrow> Some (Some (seriesMetadataMap s)))\<rparr>"

definition change_inputs :: "Host \<Rightarrow> InputUpdate \<Rightarrow> LineChartComponent \<Rightarrow> error + LineChartComponent" where
  "change_inputs h u s = ngOnChanges h (changes_of u s) (assign_inputs u s)"

text \<open>Every series of the data set has an entry in the metadata map.\<close>

definition metadata_complete :: "LineChartComponent \<Rightarrow> bool" where
  "metadata_complete s =
     list_all (\<lambda>d. map_of (seriesMetadataMap s) (series_id d) \<noteq> None) (seriesData s)"

text \<open>Every entry of the new map has a previous entry of the same visibility.\<close>

definition keeps_visibility ::
  "(string \<times> DataSeriesMetadata) list \<Rightarrow> (string \<times> DataSeriesMetadata) list \<Rightarrow> bool" where
  "keeps_visibility prev m =
     list_all (\<lambda>kv. case map_of prev (fst kv) of
                      None \<Rightarrow> False
                    | Some p \<Rightarrow> visible (snd kv) = visible p) m"

text \<open>
  The extent of the current data set sent through \<open>niceDomain\<close> of each axis's scale.
\<close>

definition derived_extent :: "Host \<Rightarrow> LineChartComponent \<Rightarrow> Extent" where
  "derived_extent h s =
     \<lparr>ext_x = niceDomain h (host_xScale s)
               (ext_x (computeDataSeriesExtent h (seriesData s) (seriesMetadataMap s))),
      ext_y = niceDomain h (host_yScale s)
               (ext_y (computeDataSeriesExtent h (seriesData s) (seriesMetadataMap s)))\<rparr>"

section \<open>Concrete charts and components\<close>

definition example_dim :: Dimension where
  "example_dim = \<lparr>dim_width = 100, dim_height = 50\<rparr>"

definition example_option :: ChartOption where
  "example_option =
     \<lparr>opt_type = SVG, opt_container = ''svg'', opt_devicePixelRatio = 1, opt_callbacks = [],
      opt_domDimension = example_dim, opt_xScaleType = LINEAR, opt_yScaleType = LINEAR\<rparr>"

definition series_a :: DataSeries where
  "series_a = \<lparr>series_id = ''a'', points = [(0, 0), (1, 1)]\<rparr>"

definition series_b :: DataSeries where
  "series_b = \<lparr>series_id = ''b'', points = [(2, 5)]\<rparr>"

definition example_coordinator :: Coordinator where
  "example_coordinator =
     \<lparr>coordinatorKind = BaseCoordinator, domContainerRect = dim_rect example_dim,
      viewBoxRect = unit_rect, xScale = Scale LINEAR, yScale = Scale LINEAR\<rparr>"

text \<open>The SVG chart of \<open>example_option\<close> after its first animation frame.\<close>

definition idle_chart :: Chart where
  "idle_chart =
     \<lparr>renderer = \<lparr>rendererKind = SvgRenderer ''svg'', surfaceRect = Some (dim_rect example_dim)\<rparr>,
      seriesLineView = \<lparr>data = [], paintDirty = False, layoutRect = Some (dim_rect example_dim)\<rparr>,
      coordinator = example_coordinator,
      metadataMap = Map.empty, onDrawEnd = [], shouldRedraw = False, animationFrameQueue = 0,
      events = [DrawFrame \<lparr>frame_data = [], frame_metadata = Map.empty,
                           frame_coordinator = example_coordinator,
                           frame_layoutRect = Some (dim_rect example_dim),
                           frame_paintDirty = True\<rparr>, Flush, DrawEnd]\<rparr>"



text \<open>A host whose \<open>onDrawEnd\<close> hands the chart a data set.\<close>

definition reentrant_option :: ChartOption where
  "reentrant_option = example_option\<lparr>opt_callbacks := [UpdateData [series_a]]\<rparr>"

definition reentrant_chart :: Chart where
  "reentrant_chart =
     idle_chart\<lparr>onDrawEnd := [UpdateData [series_a]], shouldRedraw := True, animationFrameQueue := 1\<rparr>"

definition md_a :: DataSeriesMetadata where
  "md_a = \<lparr>md_id = ''a'', displayName = ''A'', visible = True, color = ''#f00'', opacity = 1\<rparr>"

definition md_b :: DataSeriesMetadata where
  "md_b = \<lparr>md_id = ''b'', displayName = ''B'', visible = True, color = ''#00f'', opacity = 1\<rparr>"


definition chart_with_a :: Chart where
  "chart_with_a = idle_chart\<lparr>metadataMap := [''a'' \<mapsto> md_a]\<rparr>"

text \<open>
  A host without WebGL whose \<open>niceDomain\<close> widens an interval by one on each side and
  whose data extent is fixed.
\<close>

definition example_host :: Host where
  "example_host =
     \<lparr>clientDimensions = \<lparr>dom_main = example_dim, dom_yAxis = zero_dimension,
                            dom_xAxis = zero_dimension\<rparr>,
      chartEl = ''svg'', devicePixelRatio = 1, isWebGl2Supported = False,
      isOffscreenCanvasSupported = False, getRendererType = (\<lambda>t. SVG),
      niceDomain = (\<lambda>sc e. (fst e - 1, snd e + 1)),
      computeDataSeriesExtent = (\<lambda>d m. \<lparr>ext_x = (0, 1), ext_y = (0, 1)\<rparr>)\<rparr>"

definition first_inputs :: InputUpdate where
  "first_inputs =
     no_update\<lparr>new_seriesData := Some [series_a], new_seriesMetadataMap := Some [(''a'', md_a)]\<rparr>"

definition pan_extent :: Extent where
  "pan_extent = \<lparr>ext_x = (2, 3), ext_y = (2, 3)\<rparr>"

definition explicit_default :: Extent where
  "explicit_default = \<lparr>ext_x = (-5, 5), ext_y = (-5, 5)\<rparr>"

text \<open>
  The component after its inputs are bound, the view is initialised and the user has
  panned to \<open>pan_extent\<close>.
\<close>

definition panned_component :: "error + LineChartComponent" where
  "panned_component =
     then_run
       (then_run (change_inputs example_host first_inputs (LineChartComponent_new example_host))
          (ngAfterViewInit example_host))
       (onViewExtentChanged example_host pan_extent)"

text \<open>A component with a chart, its data and metadata bound and its view box at the default.\<close>

definition ready_component :: LineChartComponent where
  "ready_component =
     (LineChartComponent_new example_host)
       \<lparr>seriesData := [series_a], seriesMetadataMap := [(''a'', md_a)],
        viewExtent := \<lparr>ext_x = (-1, 2), ext_y = (-1, 2)\<rparr>,
        dataExtent := Some \<lparr>ext_x = (0, 1), ext_y = (0, 1)\<rparr>,
        lineChart := Some chart_with_a, isViewExtentUpdated := False,
        maybeSetViewExtentToDefault := False\<rparr>"

text \<open>The component with an empty data set bound and its view initialised.\<close>

definition empty_inputs :: InputUpdate where
  "empty_inputs = no_update\<lparr>new_seriesData := Some [], new_seriesMetadataMap := Some []\<rparr>"

definition empty_component :: "error + LineChartComponent" where
  "empty_component =
     then_run (change_inputs example_host empty_inputs (LineChartComponent_new example_host))
       (ngAfterViewInit example_host)"

text \<open>
  A host whose data extent is the least and greatest coordinate of the points of all
  series (the origin when there is no point).
\<close>

definition points_extent :: "(number \<times> number) list \<Rightarrow> Extent" where
  "points_extent ps =
     (case ps of
        [] \<Rightarrow> \<lparr>ext_x = (0, 0), ext_y = (0, 0)\<rparr>
      | p # rest \<Rightarrow>
          \<lparr>ext_x = (fold min (map fst rest) (fst p), fold max (map fst rest) (fst p)),
           ext_y = (fold min (map snd rest) (snd p), fold max (map snd rest) (snd p))\<rparr>)"

definition measuring_host :: Host where
  "measuring_host =
     example_host\<lparr>computeDataSeriesExtent := (\<lambda>d m. points_extent (concat (map points d)))\<rparr>"

section \<open>Properties of the chart\<close>

lemma scheduleRedraw_simps [simp]:
  "shouldRedraw (scheduleRedraw c) = True"
  "animationFrameQueue (scheduleRedraw c) = (if shouldRedraw c then animationFrameQueue c else animationFrameQueue c + 1)"
  "events (scheduleRedraw c) = events c"
  "onDrawEnd (scheduleRedraw c) = onDrawEnd c"
  "seriesLineView (scheduleRedraw c) = seriesLineView c"
  "coordinator (scheduleRedraw c) = coordinator c"
  "metadataMap (scheduleRedraw c) = metadataMap c"
  "renderer (scheduleRedraw c) = renderer c"
  by (simp_all add: scheduleRedraw_def)

lemma markAsPaintDirty_simps [simp]:
  "shouldRedraw (markAsPaintDirty c) = shouldRedraw c"
  "animationFrameQueue (markAsPaintDirty c) = animationFrameQueue c"
  "events (markAsPaintDirty c) = events c"
  "onDrawEnd (markAsPaintDirty c) = onDrawEnd c"
  "coordinator (markAsPaintDirty c) = coordinator c"
  "metadataMap (markAsPaintDirty c) = metadataMap c"
  "renderer (markAsPaintDirty c) = renderer c"
  "paintDirty (seriesLineView (markAsPaintDirty c)) = True"
  "data (seriesLineView (markAsPaintDirty c)) = data (seriesLineView c)"
  "layoutRect (seriesLineView (markAsPaintDirty c)) = layoutRect (seriesLineView c)"
  by (simp_all add: markAsPaintDirty_def)

lemma forEach_total:
  "None \<notin> snd ` set m \<Longrightarrow> \<exists>r. updateMetadata_forEach m st = Inr r"
proof (induction m arbitrary: st)
  case Nil
  then show ?case by simp
next
  case (Cons e m)
  obtain k v where e: "e = (k, v)" by (cases e)
  obtain rp mm where st: "st = (rp, mm)" by (cases st)
  from Cons.prems e obtain md where v: "v = Some md" by (cases v) force+
  from Cons.prems have "None \<notin> snd ` set m" by auto
  then show ?case using Cons.IH e st v by (cases "mm k") auto
qed

lemma updateMetadata_total:
  "None \<notin> snd ` set m \<Longrightarrow> \<exists>c'. updateMetadata m c = Inr c'"
  using forEach_total [of m "(False, metadataMap c)"]
  by (auto simp: updateMetadata_def split: sum.splits prod.splits)

lemma apply_op_total: "well_typed op \<Longrightarrow> \<exists>c'. apply_op op c = Inr c'"
  by (cases op) (simp_all add: updateMetadata_total)

lemma apply_op_frame:
  assumes "apply_op op c = Inr c'"
  shows "events c' = events c" and "onDrawEnd c' = onDrawEnd c"
  using assms
  by (cases op; auto simp: updateMetadata_def resize_def updateViewBox_def updateData_def
        setXScaleType_def setYScaleType_def dispose_def split: sum.splits prod.splits if_splits)+

lemma apply_op_flag:
  assumes "apply_op op c = Inr c'"
  shows "shouldRedraw c \<Longrightarrow> shouldRedraw c' \<and> animationFrameQueue c' = animationFrameQueue c"
    and "schedules_redraw op \<Longrightarrow> shouldRedraw c' \<and>
           animationFrameQueue c' = (if shouldRedraw c then animationFrameQueue c else animationFrameQueue c + 1)"
  using assms
  by (cases op; auto simp: updateMetadata_def resize_def updateViewBox_def updateData_def
        setXScaleType_def setYScaleType_def dispose_def split: sum.splits prod.splits if_splits)+



lemma run_ops_total: "\<forall>op\<in>set ops. well_typed op \<Longrightarrow> \<exists>c'. run_ops ops c = Inr c'"
proof (induction ops arbitrary: c)
  case Nil
  then show ?case by simp
next
  case (Cons op ops)
  then obtain c1 where "apply_op op c = Inr c1" using apply_op_total [of op c] by auto
  then show ?case using Cons by simp
qed

lemma run_ops_frame:
  "run_ops ops c = Inr c' \<Longrightarrow> events c' = events c \<and> onDrawEnd c' = onDrawEnd c"
proof (induction ops arbitrary: c)
  case Nil
  then show ?case by simp
next
  case (Cons op ops)
  then show ?case by (auto split: sum.splits dest: apply_op_frame)
qed

lemma run_ops_flag_kept:
  "shouldRedraw c \<Longrightarrow> run_ops ops c = Inr c' \<Longrightarrow>
     shouldRedraw c' \<and> animationFrameQueue c' = animationFrameQueue c"
proof (induction ops arbitrary: c)
  case Nil
  then show ?case by simp
next
  case (Cons op ops)
  from Cons.prems obtain c1 where s: "apply_op op c = Inr c1" and r: "run_ops ops c1 = Inr c'"
    by (auto split: sum.splits)
  from apply_op_flag(1) [OF s] Cons.prems(1)
  have "shouldRedraw c1" "animationFrameQueue c1 = animationFrameQueue c" by auto
  with Cons.IH [OF _ r] show ?case by simp
qed




lemma redraw_eq: "redraw c = run_ops (onDrawEnd c) (after_draw c)"
  by (simp add: redraw_def call_onDrawEnd_def after_draw_def flush_def internalOnlyDrawFrame_def)

lemma after_draw_simps [simp]:
  "shouldRedraw (after_draw c) = shouldRedraw c"
  "animationFrameQueue (after_draw c) = animationFrameQueue c"
  "onDrawEnd (after_draw c) = onDrawEnd c"
  "events (after_draw c) = events c @ [DrawFrame (draw_inputs c), Flush, DrawEnd]"
  by (simp_all add: after_draw_def flush_def internalOnlyDrawFrame_def)

lemma frame_callback_result:
  assumes "shouldRedraw c" and "\<forall>op\<in>set (onDrawEnd c). well_typed op"
  shows "\<exists>c1. run_ops (onDrawEnd c) (after_draw c) = Inr c1 \<and> shouldRedraw c1 \<and>
            animationFrameQueue c1 = animationFrameQueue c \<and>
            events c1 = events c @ [DrawFrame (draw_inputs c), Flush, DrawEnd] \<and>
            frame_callback c = Inr (c1\<lparr>shouldRedraw := False\<rparr>)"
proof -
  from run_ops_total [OF assms(2)]
  obtain c1 where r: "run_ops (onDrawEnd c) (after_draw c) = Inr c1" by blast
  from run_ops_flag_kept [OF _ r] assms(1)
  have "shouldRedraw c1" "animationFrameQueue c1 = animationFrameQueue c" by simp_all
  moreover from run_ops_frame [OF r]
  have "events c1 = events c @ [DrawFrame (draw_inputs c), Flush, DrawEnd]" by simp
  moreover have "frame_callback c = Inr (c1\<lparr>shouldRedraw := False\<rparr>)"
    using r by (simp add: frame_callback_def redraw_eq)
  ultimately show ?thesis using r by blast
qed

lemma animation_frame_one:
  assumes "shouldRedraw c" and "animationFrameQueue c = 1" and "\<forall>op\<in>set (onDrawEnd c). well_typed op"
  shows "\<exists>c1. run_ops (onDrawEnd c) (after_draw (c\<lparr>animationFrameQueue := 0\<rparr>)) = Inr c1 \<and>
            shouldRedraw c1 \<and> animationFrameQueue c1 = 0 \<and>
            events c1 = events c @ [DrawFrame (draw_inputs c), Flush, DrawEnd] \<and>
            animation_frame c = Inr (c1\<lparr>shouldRedraw := False\<rparr>)"
proof -
  let ?c0 = "c\<lparr>animationFrameQueue := 0\<rparr>"
  have "shouldRedraw ?c0" "\<forall>op\<in>set (onDrawEnd ?c0). well_typed op" using assms by simp_all
  from frame_callback_result [OF this]
  obtain c1 where c1: "run_ops (onDrawEnd ?c0) (after_draw ?c0) = Inr c1" "shouldRedraw c1"
    "animationFrameQueue c1 = animationFrameQueue ?c0"
    "events c1 = events ?c0 @ [DrawFrame (draw_inputs ?c0), Flush, DrawEnd]"
    "frame_callback ?c0 = Inr (c1\<lparr>shouldRedraw := False\<rparr>)" by blast
  have "animation_frame c = Inr (c1\<lparr>shouldRedraw := False\<rparr>)"
    using c1(5) assms(2) by (simp add: animation_frame_def)
  moreover have "draw_inputs ?c0 = draw_inputs c" by (simp add: draw_inputs_def)
  ultimately show ?thesis using c1 by auto
qed












lemma forEach_distinct:
  "distinct (map fst m) \<Longrightarrow>
   updateMetadata_forEach (entries_of m) (rp, mm) =
     Inr (rp \<or> (\<exists>kv\<in>set m. entry_repaints mm kv), mm ++ map_of m)"
proof (induction m arbitrary: rp mm)
  case Nil
  then show ?case by (simp add: entries_of_def)
next
  case (Cons e m)
  obtain k v where e: "e = (k, v)" by (cases e)
  from Cons.prems e have k: "k \<notin> fst ` set m" and d: "distinct (map fst m)" by auto
  have same: "((rp \<or> entry_repaints mm (k, v)) \<or> (\<exists>kv\<in>set m. entry_repaints (mm(k \<mapsto> v)) kv)) =
      (rp \<or> (\<exists>kv\<in>set (e # m). entry_repaints mm kv))"
  proof -
    have "entry_repaints (mm(k \<mapsto> v)) kv = entry_repaints mm kv" if "kv \<in> set m" for kv
    proof -
      from that k have "fst kv \<noteq> k" by force
      then show ?thesis by (simp add: entry_repaints_def)
    qed
    then show ?thesis using e by auto
  qed
  have upd: "mm(k \<mapsto> v) ++ map_of m = mm ++ map_of (e # m)"
  proof -
    have "map_of m k = None" using k by (simp add: map_of_eq_None_iff)
    then show ?thesis using e by (auto simp: map_add_def fun_eq_iff split: option.splits)
  qed
  have step: "updateMetadata_forEach (entries_of (e # m)) (rp, mm) =
     updateMetadata_forEach (entries_of m) (rp \<or> entry_repaints mm (k, v), mm(k \<mapsto> v))"
    using e by (cases "mm k") (simp_all add: entries_of_def entry_repaints_def paint_fields_differ_def)
  have "updateMetadata_forEach (entries_of (e # m)) (rp, mm) =
     Inr ((rp \<or> entry_repaints mm (k, v)) \<or> (\<exists>kv\<in>set m. entry_repaints (mm(k \<mapsto> v)) kv),
          mm(k \<mapsto> v) ++ map_of m)"
    unfolding step by (rule Cons.IH [OF d])
  then show ?case by (simp only: same upd)
qed

lemma updateMetadata_distinct:
  assumes "distinct (map fst m)"
  shows "updateMetadata (entries_of m) c =
     Inr (scheduleRedraw
            ((if \<exists>kv\<in>set m. entry_repaints (metadataMap c) kv then markAsPaintDirty else (\<lambda>c. c))
               (c\<lparr>metadataMap := metadataMap c ++ map_of m\<rparr>)))"
  by (simp add: updateMetadata_def forEach_distinct [OF assms])


text \<open>
  Claim C10. \<open>updateMetadata\<close> marks the series view paint-dirty whenever some entry has
  no prior entry in the chart's map; when every entry has a prior entry of the same color,
  visibility and opacity (so that at most \<open>displayName\<close> differs), the paint-dirty flag is
  left as it was.
\<close>

theorem new_entry_repaints_displayName_does_not:
  assumes "distinct (map fst m)"
  shows "\<exists>c'. updateMetadata (entries_of m) c = Inr c' \<and>
           ((\<exists>kv\<in>set m. metadataMap c (fst kv) = None) \<longrightarrow> paintDirty (seriesLineView c')) \<and>
           ((\<forall>kv\<in>set m. \<exists>e. metadataMap c (fst kv) = Some e \<and> color (snd kv) = color e \<and>
                 visible (snd kv) = visible e \<and> opacity (snd kv) = opacity e)
              \<longrightarrow> paintDirty (seriesLineView c') = paintDirty (seriesLineView c))"
proof -
  have a: "(\<exists>kv\<in>set m. metadataMap c (fst kv) = None) \<Longrightarrow> \<exists>kv\<in>set m. entry_repaints (metadataMap c) kv"
    by (force simp: entry_repaints_def)
  have b: "(\<forall>kv\<in>set m. \<exists>e. metadataMap c (fst kv) = Some e \<and> color (snd kv) = color e \<and>
                 visible (snd kv) = visible e \<and> opacity (snd kv) = opacity e)
          \<Longrightarrow> \<not> (\<exists>kv\<in>set m. entry_repaints (metadataMap c) kv)"
    by (fastforce simp: entry_repaints_def paint_fields_differ_def)
  show ?thesis
    unfolding updateMetadata_distinct [OF assms] using a b by auto
qed



lemmas chart_defs = Chart_new_def select_backend_def Coordinator_new_def Renderer_new_def
  SeriesLineView_new_def resize_def setXScaleType_def setYScaleType_def scheduleRedraw_def
  updateData_def updateViewBox_def markAsPaintDirty_def dispose_def createScale_def
  animation_frame_def frame_callback_def redraw_def call_onDrawEnd_def flush_def
  internalOnlyDrawFrame_def draw_inputs_def then_run_def

lemma idle_chart_reachable:
  "then_run (Chart_new example_option) animation_frame = Inr idle_chart"
  by (simp add: chart_defs example_option_def idle_chart_def example_coordinator_def)


text \<open>
  Claim C2, as stated, fails. The host's \<open>onDrawEnd\<close> hands the chart a data set during the
  first frame's draw. The data set is stored, but \<open>scheduleRedraw\<close> returns early on the
  flag that is still set: after the frame the flag is clear, no callback is queued, the one
  frame drawn shows no data, and a further animation frame draws nothing.
\<close>

theorem mutation_during_draw_counterexample:
  "map_sum id (data \<circ> seriesLineView) (then_run (Chart_new reentrant_option) animation_frame) = Inr [series_a] \<and>
   map_sum id shouldRedraw (then_run (Chart_new reentrant_option) animation_frame) = Inr False \<and>
   map_sum id animationFrameQueue (then_run (Chart_new reentrant_option) animation_frame) = Inr 0 \<and>
   map_sum id (drawn_data \<circ> events) (then_run (Chart_new reentrant_option) animation_frame) = Inr [[]] \<and>
   map_sum id (drawn_data \<circ> events)
     (then_run (then_run (Chart_new reentrant_option) animation_frame) animation_frame) = Inr [[]]"
  by (simp add: chart_defs reentrant_option_def example_option_def)

text \<open>
  Claim C2, amended. The in-flight flag is cleared only after the frame's draw, the calls
  of \<open>onDrawEnd\<close> included. A call made during the draw changes the chart's state and is
  not drawn twice in that frame: the frame is the one drawn before the call. It schedules
  no frame: afterwards the queue is empty and a further animation frame changes nothing,
  so the change is drawn by the frame that a later call schedules.
\<close>

theorem mutation_during_draw_waits:
  assumes "shouldRedraw c" and "animationFrameQueue c = 1"
    and "\<forall>op\<in>set (onDrawEnd c). well_typed op"
  shows "\<exists>c1. run_ops (onDrawEnd c) (after_draw (c\<lparr>animationFrameQueue := 0\<rparr>)) = Inr c1 \<and>
           shouldRedraw c1 \<and> animationFrameQueue c1 = 0 \<and>
           events c1 = events c @ [DrawFrame (draw_inputs c), Flush, DrawEnd] \<and>
           animation_frame c = Inr (c1\<lparr>shouldRedraw := False\<rparr>) \<and>
           animation_frame (c1\<lparr>shouldRedraw := False\<rparr>) = Inr (c1\<lparr>shouldRedraw := False\<rparr>)"
proof -
  from animation_frame_one [OF assms]
  obtain c1 where c1: "run_ops (onDrawEnd c) (after_draw (c\<lparr>animationFrameQueue := 0\<rparr>)) = Inr c1"
    "shouldRedraw c1" "animationFrameQueue c1 = 0"
    "events c1 = events c @ [DrawFrame (draw_inputs c), Flush, DrawEnd]"
    "animation_frame c = Inr (c1\<lparr>shouldRedraw := False\<rparr>)" by blast
  have "animation_frame (c1\<lparr>shouldRedraw := False\<rparr>) = Inr (c1\<lparr>shouldRedraw := False\<rparr>)"
    using c1(3) by (simp add: animation_frame_def)
  with c1 show ?thesis by blast
qed

text \<open>The chart whose \<open>onDrawEnd\<close> hands over a data set, with its first frame queued.\<close>

theorem mutation_during_draw_waits_witness:
  "\<exists>c1. run_ops [UpdateData [series_a]] (after_draw (reentrant_chart\<lparr>animationFrameQueue := 0\<rparr>)) = Inr c1 \<and>
      data (seriesLineView c1) = [series_a] \<and>
      shouldRedraw c1 \<and> animationFrameQueue c1 = 0 \<and>
      events c1 = events reentrant_chart @ [DrawFrame (draw_inputs reentrant_chart), Flush, DrawEnd] \<and>
      frame_data (draw_inputs reentrant_chart) = [] \<and>
      animation_frame reentrant_chart = Inr (c1\<lparr>shouldRedraw := False\<rparr>) \<and>
      animation_frame (c1\<lparr>shouldRedraw := False\<rparr>) = Inr (c1\<lparr>shouldRedraw := False\<rparr>)"
proof -
  have "shouldRedraw reentrant_chart" "animationFrameQueue reentrant_chart = 1"
    "\<forall>op\<in>set (onDrawEnd reentrant_chart). well_typed op"
    by (simp_all add: reentrant_chart_def)
  from mutation_during_draw_waits [OF this]
  show ?thesis
    by (auto simp: reentrant_chart_def updateData_def draw_inputs_def idle_chart_def)
qed

text \<open>
  Claim C3. \<open>dispose\<close> may be called in any state and twice, but its body is empty: the
  chart, its renderer and what the next animation frame does are what they were.
\<close>

theorem dispose_releases_nothing:
  "dispose c = c \<and> renderer (dispose c) = renderer c \<and>
   animation_frame (dispose c) = animation_frame c \<and>
   dispose (dispose c) = dispose c"
  by (simp add: dispose_def)

text \<open>
  Claim C4. On the idle chart \<open>setXScaleType\<close> and \<open>setYScaleType\<close> put the new scale in
  the coordinator and schedule nothing: the flag stays clear, the queue stays empty and the
  next animation frame draws nothing, where \<open>updateData\<close> queues a callback.
\<close>

theorem setScaleType_schedules_nothing:
  "xScale (coordinator (setXScaleType LOG10 idle_chart)) = createScale LOG10 \<and>
   yScale (coordinator (setYScaleType LOG10 idle_chart)) = createScale LOG10 \<and>
   shouldRedraw (setXScaleType LOG10 idle_chart) = False \<and>
   animationFrameQueue (setXScaleType LOG10 idle_chart) = 0 \<and>
   shouldRedraw (setYScaleType LOG10 idle_chart) = False \<and>
   animationFrameQueue (setYScaleType LOG10 idle_chart) = 0 \<and>
   animation_frame (setXScaleType LOG10 idle_chart) = Inr (setXScaleType LOG10 idle_chart) \<and>
   animationFrameQueue (updateData [] idle_chart) = 1"
  by (simp add: chart_defs idle_chart_def)

text \<open>
  Claim C6. The constructor builds the SVG renderer with the base coordinator for the kind
  \<open>SVG\<close> and the GPU renderer with its coordinator for the kind \<open>WEBGL\<close>; for any other
  kind it throws, so that no chart without a renderer comes into being.
\<close>

theorem construction_is_exhaustive:
  "(opt_type opt = SVG \<longrightarrow>
      (\<exists>c. Chart_new opt = Inr c \<and> rendererKind (renderer c) = SvgRenderer (opt_container opt) \<and>
           coordinatorKind (coordinator c) = BaseCoordinator)) \<and>
   (opt_type opt = WEBGL \<longrightarrow>
      (\<exists>c. Chart_new opt = Inr c \<and>
           rendererKind (renderer c) = ThreeRenderer (opt_container opt) (opt_devicePixelRatio opt) \<and>
           coordinatorKind (coordinator c) = ThreeCoordinator)) \<and>
   (opt_type opt \<noteq> SVG \<and> opt_type opt \<noteq> WEBGL \<longrightarrow> Chart_new opt = Inl TypeError)"
  by (cases "opt_type opt") (simp_all add: chart_defs)

text \<open>The three kinds of option, one of each.\<close>

theorem construction_is_exhaustive_witness:
  "(\<exists>c. Chart_new example_option = Inr c \<and> rendererKind (renderer c) = SvgRenderer ''svg'' \<and>
        coordinatorKind (coordinator c) = BaseCoordinator) \<and>
   (\<exists>c. Chart_new (example_option\<lparr>opt_type := WEBGL, opt_devicePixelRatio := 2\<rparr>) = Inr c \<and>
        rendererKind (renderer c) = ThreeRenderer ''svg'' 2 \<and>
        coordinatorKind (coordinator c) = ThreeCoordinator) \<and>
   Chart_new (example_option\<lparr>opt_type := UNRECOGNIZED 7\<rparr>) = Inl TypeError"
  using construction_is_exhaustive [of example_option]
    construction_is_exhaustive [of "example_option\<lparr>opt_type := WEBGL, opt_devicePixelRatio := 2\<rparr>"]
    construction_is_exhaustive [of "example_option\<lparr>opt_type := UNRECOGNIZED 7\<rparr>"]
  by (simp add: example_option_def)


text \<open>A first entry for series \<open>b\<close>, and series \<open>a\<close> renamed.\<close>

theorem new_entry_repaints_displayName_does_not_witness:
  "(\<exists>c'. updateMetadata (entries_of [(''b'', md_b)]) chart_with_a = Inr c' \<and>
      metadataMap chart_with_a ''b'' = None \<and> paintDirty (seriesLineView c')) \<and>
   (\<exists>c'. updateMetadata (entries_of [(''a'', md_a\<lparr>displayName := ''renamed''\<rparr>)]) chart_with_a = Inr c' \<and>
      \<not> paintDirty (seriesLineView chart_with_a) \<and> \<not> paintDirty (seriesLineView c'))"
proof -
  have d1: "distinct (map fst [(''b'', md_b)])" by simp
  have d2: "distinct (map fst [(''a'', md_a\<lparr>displayName := ''renamed''\<rparr>)])" by simp
  show ?thesis
    using new_entry_repaints_displayName_does_not [OF d1, of chart_with_a]
      new_entry_repaints_displayName_does_not [OF d2, of chart_with_a]
    by (auto simp: chart_with_a_def idle_chart_def)
qed

section \<open>Properties of the host component\<close>

lemma assign_values: "snd ` set (assign k v l) \<subseteq> insert v (snd ` set l)"
  by (induction l) (force split: if_splits)+

lemma foldl_assign_defined:
  "None \<notin> snd ` set acc \<Longrightarrow> \<forall>d\<in>set ds. f d \<noteq> None \<Longrightarrow>
   None \<notin> snd ` set (foldl (\<lambda>metadata d. assign (series_id d) (f d) metadata) acc ds)"
proof (induction ds arbitrary: acc)
  case Nil
  then show ?case by simp
next
  case (Cons d ds)
  have "None \<notin> snd ` set (assign (series_id d) (f d) acc)"
    using assign_values [of "series_id d" "f d" acc] Cons.prems by auto
  then show ?case using Cons by simp
qed

lemma required_metadata_defined:
  "metadata_complete s \<Longrightarrow> None \<notin> snd ` set (required_metadata s)"
  unfolding required_metadata_def metadata_complete_def
  by (rule foldl_assign_defined) (simp_all add: list_all_iff)

lemma updateProp_metadata_total:
  assumes "metadata_complete s"
  shows "\<exists>c'. updateProp_metadata s c = Inr (s\<lparr>isMetadataUpdated := isMetadataUpdated s \<and> \<not> (isMetadataUpdated s \<or> isDataUpdated s)\<rparr>, c')"
proof (cases "isMetadataUpdated s \<or> isDataUpdated s")
  case True
  from updateMetadata_total [OF required_metadata_defined [OF assms], of c]
  obtain c' where "updateMetadata (required_metadata s) c = Inr c'" by blast
  with True show ?thesis by (auto simp: updateProp_metadata_def)
next
  case False
  then show ?thesis by (simp add: updateProp_metadata_def)
qed

lemma updateProp_without_chart: "lineChart s = None \<Longrightarrow> updateProp h s = Inr s"
  by (simp add: updateProp_def)

lemma updateProp_with_chart:
  assumes "lineChart s \<noteq> None" and "metadata_complete s"
  shows "\<exists>s'. updateProp h s = Inr s' \<and>
           viewExtent s' = viewExtent (updateProp_viewExtent h s) \<and>
           dataExtent s' = dataExtent (updateProp_viewExtent h s) \<and>
           defaultViewExtent s' = defaultViewExtent s \<and>
           host_xScale s' = host_xScale s \<and> host_yScale s' = host_yScale s \<and>
           seriesData s' = seriesData s \<and> seriesMetadataMap s' = seriesMetadataMap s \<and>
           lineChart s' \<noteq> None \<and>
           \<not> isDefaultViewExtentUpdated s' \<and> \<not> isViewExtentUpdated s' \<and>
           \<not> maybeSetViewExtentToDefault s' \<and>
           ((isDefaultViewExtentUpdated s \<or> isViewExtentUpdated s \<or> maybeSetViewExtentToDefault s) \<longrightarrow>
              map_option (viewBoxRect \<circ> coordinator) (lineChart s') = Some (extent_rect (viewExtent s')))"
proof -
  from assms(1) obtain c where c: "lineChart s = Some c" by auto
  from updateProp_metadata_total [OF assms(2), of c]
  obtain c' where m: "updateProp_metadata s c =
      Inr (s\<lparr>isMetadataUpdated := isMetadataUpdated s \<and> \<not> (isMetadataUpdated s \<or> isDataUpdated s)\<rparr>, c')"
    by blast
  show ?thesis
    using c m
    by (simp add: updateProp_def updateProp_data_def updateProp_viewBox_def updateProp_viewExtent_def Let_def
        getDefaultViewExtent_def updateViewBox_def markAsPaintDirty_def scheduleRedraw_def
        split: option.splits)
qed

lemma metadata_complete_cong:
  "seriesData s' = seriesData s \<Longrightarrow> seriesMetadataMap s' = seriesMetadataMap s \<Longrightarrow>
   metadata_complete s' = metadata_complete s"
  by (simp add: metadata_complete_def)

lemma ngOnChanges_flags_fields [simp]:
  "seriesData (ngOnChanges_flags ch s) = seriesData s"
  "seriesMetadataMap (ngOnChanges_flags ch s) = seriesMetadataMap s"
  "defaultViewExtent (ngOnChanges_flags ch s) = defaultViewExtent s"
  "dataExtent (ngOnChanges_flags ch s) = dataExtent s"
  "viewExtent (ngOnChanges_flags ch s) = viewExtent s"
  "isViewExtentUpdated (ngOnChanges_flags ch s) = isViewExtentUpdated s"
  "isDefaultViewExtentUpdated (ngOnChanges_flags ch s) =
     (ch_defaultViewExtent ch \<or> isDefaultViewExtentUpdated s)"
  "(lineChart (ngOnChanges_flags ch s) = None) = (lineChart s = None)"
  "host_xScale (ngOnChanges_flags ch s) =
     (if ch_xScaleType ch then createScale (xScaleType s) else host_xScale s)"
  "host_yScale (ngOnChanges_flags ch s) =
     (if ch_yScaleType ch then createScale (yScaleType s) else host_yScale s)"
  by (simp_all add: ngOnChanges_flags_def Let_def)

text \<open>What \<open>ngOnChanges\<close> leaves of a component that has a chart.\<close>

lemma ngOnChanges_with_chart:
  assumes "lineChart s \<noteq> None" and "metadata_complete s"
  shows "\<exists>s'. ngOnChanges h ch s = Inr s' \<and>
           viewExtent s' =
             (case (if ch_defaultViewExtent ch \<or> isDefaultViewExtentUpdated s
                    then defaultViewExtent s else None) of
                Some d \<Rightarrow> d
              | None \<Rightarrow>
                  if shouldResetViewExtent h ch (ngOnChanges_flags ch s)
                  then getDefaultViewExtent h s' else viewExtent s) \<and>
           lineChart s' \<noteq> None \<and> \<not> isDefaultViewExtentUpdated s' \<and>
           \<not> isViewExtentUpdated s' \<and> \<not> maybeSetViewExtentToDefault s' \<and>
           seriesData s' = seriesData s \<and> seriesMetadataMap s' = seriesMetadataMap s \<and>
           defaultViewExtent s' = defaultViewExtent s"
proof -
  let ?s2 = "(ngOnChanges_flags ch s)\<lparr>maybeSetViewExtentToDefault :=
               shouldResetViewExtent h ch (ngOnChanges_flags ch s)\<rparr>"
  have 1: "lineChart ?s2 \<noteq> None" using assms(1) by simp
  have 2: "metadata_complete ?s2" using assms(2) by (simp add: metadata_complete_def)
  from updateProp_with_chart [OF 1 2, of h]
  obtain s' where s': "updateProp h ?s2 = Inr s'"
    "viewExtent s' = viewExtent (updateProp_viewExtent h ?s2)"
    "dataExtent s' = dataExtent (updateProp_viewExtent h ?s2)"
    "defaultViewExtent s' = defaultViewExtent ?s2"
    "host_xScale s' = host_xScale ?s2" "host_yScale s' = host_yScale ?s2"
    "seriesData s' = seriesData ?s2" "seriesMetadataMap s' = seriesMetadataMap ?s2"
    "lineChart s' \<noteq> None" "\<not> isDefaultViewExtentUpdated s'" "\<not> isViewExtentUpdated s'"
    "\<not> maybeSetViewExtentToDefault s'" by blast
  have "ngOnChanges h ch s = Inr s'" using s'(1) by (simp add: ngOnChanges_def Let_def)
  moreover have "viewExtent s' =
             (case (if ch_defaultViewExtent ch \<or> isDefaultViewExtentUpdated s
                    then defaultViewExtent s else None) of
                Some d \<Rightarrow> d
              | None \<Rightarrow>
                  if shouldResetViewExtent h ch (ngOnChanges_flags ch s)
                  then getDefaultViewExtent h s' else viewExtent s)"
    using s'(2-6)
    by (auto simp: updateProp_viewExtent_def getDefaultViewExtent_def Let_def split: option.splits)
  ultimately show ?thesis using s' by simp
qed

lemma keeps_visibility_loop: "keeps_visibility prev m \<Longrightarrow> \<not> visibility_loop (Some prev) m"
  by (induction m) (auto simp: keeps_visibility_def split: option.splits)

lemma event_with_chart:
  assumes "lineChart s \<noteq> None" and "metadata_complete s"
    and "\<not> isDefaultViewExtentUpdated s"
  shows "\<exists>s'. onViewExtentChanged h v s = Inr s' \<and>
           viewExtent s' = (if maybeSetViewExtentToDefault s then getDefaultViewExtent h s' else v) \<and>
           lineChart s' \<noteq> None \<and> \<not> isDefaultViewExtentUpdated s' \<and>
           \<not> isViewExtentUpdated s' \<and> \<not> maybeSetViewExtentToDefault s' \<and>
           seriesData s' = seriesData s \<and> seriesMetadataMap s' = seriesMetadataMap s \<and>
           defaultViewExtent s' = defaultViewExtent s"
    and "\<exists>s'. onViewExtentReset h s = Inr s' \<and> viewExtent s' = getDefaultViewExtent h s' \<and>
           map_option (viewBoxRect \<circ> coordinator) (lineChart s') = Some (extent_rect (viewExtent s'))"
proof -
  let ?s1 = "s\<lparr>isViewExtentUpdated := True, viewExtent := v\<rparr>"
  have 1: "lineChart ?s1 \<noteq> None" using assms(1) by simp
  have 2: "metadata_complete ?s1" using assms(2) by (simp add: metadata_complete_def)
  from updateProp_with_chart [OF 1 2, of h] assms(3)
  show "\<exists>s'. onViewExtentChanged h v s = Inr s' \<and>
           viewExtent s' = (if maybeSetViewExtentToDefault s then getDefaultViewExtent h s' else v) \<and>
           lineChart s' \<noteq> None \<and> \<not> isDefaultViewExtentUpdated s' \<and>
           \<not> isViewExtentUpdated s' \<and> \<not> maybeSetViewExtentToDefault s' \<and>
           seriesData s' = seriesData s \<and> seriesMetadataMap s' = seriesMetadataMap s \<and>
           defaultViewExtent s' = defaultViewExtent s"
    by (auto simp: onViewExtentChanged_def updateProp_viewExtent_def getDefaultViewExtent_def
        Let_def split: option.splits)
  let ?s2 = "s\<lparr>maybeSetViewExtentToDefault := True\<rparr>"
  have 3: "lineChart ?s2 \<noteq> None" using assms(1) by simp
  have 4: "metadata_complete ?s2" using assms(2) by (simp add: metadata_complete_def)
  from updateProp_with_chart [OF 3 4, of h] assms(3)
  show "\<exists>s'. onViewExtentReset h s = Inr s' \<and> viewExtent s' = getDefaultViewExtent h s' \<and>
           map_option (viewBoxRect \<circ> coordinator) (lineChart s') = Some (extent_rect (viewExtent s'))"
    by (auto simp: onViewExtentReset_def updateProp_viewExtent_def getDefaultViewExtent_def
        Let_def split: option.splits)
qed

lemmas component_defs = updateProp_def updateProp_metadata_def updateProp_data_def
  updateProp_viewBox_def updateProp_viewExtent_def ngOnChanges_def ngOnChanges_flags_def
  shouldResetViewExtent_def getDefaultViewExtent_def areExtentsEqual_def
  onViewExtentChanged_def onViewExtentReset_def initializeChart_def chart_params_def
  ngAfterViewInit_def change_inputs_def assign_inputs_def changes_of_def no_update_def
  LineChartComponent_new_def DEFAULT_EXTENT_def required_metadata_def updateMetadata_def
  metadata_complete_def keeps_visibility_def

lemmas example_defs = example_host_def first_inputs_def series_a_def series_b_def md_a_def
  md_b_def pan_extent_def explicit_default_def zero_dimension_def ready_component_def
  chart_with_a_def idle_chart_def

lemma changes_of_fields:
  "ch_xScaleType (changes_of u s) = (new_xScaleType u \<noteq> None)"
  "ch_yScaleType (changes_of u s) = (new_yScaleType u \<noteq> None)"
  "ch_seriesData (changes_of u s) = (new_seriesData u \<noteq> None)"
  "ch_defaultViewExtent (changes_of u s) = (new_defaultViewExtent u \<noteq> None)"
  by (simp_all add: changes_of_def)

lemma ngOnChanges_viewExtent:
  assumes "lineChart s \<noteq> None" and "metadata_complete s"
  shows "\<exists>s'. ngOnChanges h ch s = Inr s' \<and>
           viewExtent s' =
             viewExtent (updateProp_viewExtent h
               ((ngOnChanges_flags ch s)\<lparr>maybeSetViewExtentToDefault :=
                  shouldResetViewExtent h ch (ngOnChanges_flags ch s)\<rparr>))"
proof -
  let ?s2 = "(ngOnChanges_flags ch s)\<lparr>maybeSetViewExtentToDefault :=
               shouldResetViewExtent h ch (ngOnChanges_flags ch s)\<rparr>"
  have 1: "lineChart ?s2 \<noteq> None" using assms(1) by simp
  have 2: "metadata_complete ?s2" using assms(2) by (simp add: metadata_complete_def)
  from updateProp_with_chart [OF 1 2, of h]
  obtain s' where "updateProp h ?s2 = Inr s'"
    "viewExtent s' = viewExtent (updateProp_viewExtent h ?s2)" by blast
  then show ?thesis by (auto simp: ngOnChanges_def Let_def)
qed

lemma Chart_new_total:
  "opt_type opt = SVG \<or> opt_type opt = WEBGL \<Longrightarrow> \<exists>c. Chart_new opt = Inr c"
  by (auto simp: Chart_new_def select_backend_def)

lemma initializeChart_creates:
  assumes "lineChart s = None"
    and "getRendererType h (preferredRendererType s) = SVG \<or>
         getRendererType h (preferredRendererType s) = WEBGL"
  shows "\<exists>c. initializeChart h s = Inr (s\<lparr>domDimensions := clientDimensions h, lineChart := Some c\<rparr>)"
proof -
  let ?s1 = "s\<lparr>domDimensions := clientDimensions h\<rparr>"
  from assms(2) obtain params where p: "chart_params h ?s1 (getRendererType h (preferredRendererType s)) = Some params"
    "opt_type params = SVG \<or> opt_type params = WEBGL"
    by (auto simp: chart_params_def)
  from Chart_new_total [OF p(2)] obtain c where "Chart_new params = Inr c" by blast
  with p(1) assms(1) show ?thesis by (auto simp: initializeChart_def Let_def)
qed

lemma arriving_data:
  assumes "lineChart s \<noteq> None" and "\<not> isDefaultViewExtentUpdated s"
    and "defaultViewExtent s = None"
    and "areExtentsEqual (getDefaultViewExtent h s) (viewExtent s)"
    and "metadata_complete (s\<lparr>seriesData := ds\<rparr>)"
  shows "\<exists>s'. change_inputs h (no_update\<lparr>new_seriesData := Some ds\<rparr>) s = Inr s' \<and>
           viewExtent s' = derived_extent h (s\<lparr>seriesData := ds\<rparr>)"
proof -
  let ?u = "no_update\<lparr>new_seriesData := Some ds\<rparr>"
  have 1: "lineChart (assign_inputs ?u s) \<noteq> None" using assms(1) by (simp add: assign_inputs_def)
  have 2: "metadata_complete (assign_inputs ?u s)"
    using assms(5) by (simp add: metadata_complete_def assign_inputs_def no_update_def)
  have g: "getDefaultViewExtent h (ngOnChanges_flags (changes_of ?u s) (assign_inputs ?u s)) =
           getDefaultViewExtent h s"
    by (simp add: getDefaultViewExtent_def changes_of_fields assign_inputs_def no_update_def
        split: option.splits)
  have r: "shouldResetViewExtent h (changes_of ?u s) (ngOnChanges_flags (changes_of ?u s) (assign_inputs ?u s))"
    using assms(4) unfolding shouldResetViewExtent_def g
    by (simp add: changes_of_fields no_update_def assign_inputs_def)
  from ngOnChanges_viewExtent [OF 1 2, of h "changes_of ?u s"]
  show ?thesis
    unfolding change_inputs_def
    using r assms(2,3)
    by (auto simp: updateProp_viewExtent_def getDefaultViewExtent_def derived_extent_def Let_def
        changes_of_fields assign_inputs_def no_update_def)
qed

lemma before_chart:
  assumes "lineChart s = None"
  shows "\<exists>s'. change_inputs h u s = Inr s' \<and> viewExtent s' = viewExtent s \<and> lineChart s' = None"
proof -
  let ?s1 = "ngOnChanges_flags (changes_of u s) (assign_inputs u s)"
  let ?s2 = "?s1\<lparr>maybeSetViewExtentToDefault := shouldResetViewExtent h (changes_of u s) ?s1\<rparr>"
  have n: "lineChart ?s2 = None" using assms by (simp add: assign_inputs_def)
  have v: "viewExtent ?s2 = viewExtent s" by (simp add: assign_inputs_def)
  have "change_inputs h u s = Inr ?s2"
    using updateProp_without_chart [OF n, of h] by (simp add: change_inputs_def ngOnChanges_def Let_def)
  with n v show ?thesis by blast
qed

lemma first_resolution:
  assumes "lineChart s = None" and "maybeSetViewExtentToDefault s"
    and "getRendererType h (preferredRendererType s) = SVG \<or>
         getRendererType h (preferredRendererType s) = WEBGL"
    and "metadata_complete s"
  shows "\<exists>s'. ngAfterViewInit h s = Inr s' \<and> lineChart s' \<noteq> None \<and>
           viewExtent s' = (case defaultViewExtent s of Some d \<Rightarrow> d | None \<Rightarrow> derived_extent h s)"
proof -
  from initializeChart_creates [OF assms(1,3)] obtain c where
    i: "initializeChart h s = Inr (s\<lparr>domDimensions := clientDimensions h, lineChart := Some c\<rparr>)"
    by blast
  let ?s1 = "s\<lparr>domDimensions := clientDimensions h, lineChart := Some c\<rparr>"
  have 1: "lineChart ?s1 \<noteq> None" by simp
  have 2: "metadata_complete ?s1" using assms(4) by (simp add: metadata_complete_def)
  from updateProp_with_chart [OF 1 2, of h]
  obtain s' where s': "updateProp h ?s1 = Inr s'"
    "viewExtent s' = viewExtent (updateProp_viewExtent h ?s1)" "lineChart s' \<noteq> None" by blast
  have "viewExtent (updateProp_viewExtent h ?s1) =
          (case defaultViewExtent s of Some d \<Rightarrow> d | None \<Rightarrow> derived_extent h s)"
    using assms(2)
    by (cases "isDefaultViewExtentUpdated s"; cases "defaultViewExtent s")
      (simp_all add: updateProp_viewExtent_def getDefaultViewExtent_def derived_extent_def Let_def)
  with s' i show ?thesis by (simp add: ngAfterViewInit_def then_run_def)
qed

text \<open>
  Claim C7, as stated, fails in its last part. With an empty data set bound, no default
  supplied and the view initialised, the view box is not the unit extent: \<open>updateProp\<close>
  computes the data extent of the empty data set and sends it through \<open>niceDomain\<close>.
\<close>

theorem default_view_extent_counterexample:
  "map_sum id seriesData empty_component = Inr [] \<and>
   map_sum id defaultViewExtent empty_component = Inr None \<and>
   map_sum id (Option.is_none \<circ> lineChart) empty_component = Inr False \<and>
   map_sum id viewExtent empty_component = Inr \<lparr>ext_x = (-1, 2), ext_y = (-1, 2)\<rparr> \<and>
   map_sum id viewExtent empty_component \<noteq> Inr DEFAULT_EXTENT"
  by (simp add: empty_component_def empty_inputs_def component_defs chart_defs example_defs Let_def)

text \<open>
  Claim C7, amended. The default view box of the host component follows the precedence: a
  \<open>defaultViewExtent\<close> supplied by the caller is the default; without one the default is
  the data extent sent through \<open>niceDomain\<close> of each axis's scale; and the unit extent
  \<open>{x: [0, 1], y: [0, 1]}\<close> is the default only as long as no data extent has been
  computed. The component resolves its view box accordingly. A reset sets the view box,
  and the chart's, to the supplied default when there is one and to the derived extent
  otherwise; a newly supplied default becomes the view box; with the view box at a
  supplied default, a change of the data set leaves it there. Without a supplied default
  and with the view box at the default, an arriving data set, empty or not, sets the view
  box to its derived extent. A new component has the unit extent and keeps its view box
  while it has no chart; initialising the view resolves it to the supplied default or
  else to the derived extent of the data set bound by then.
\<close>

theorem default_view_extent_precedence:
  "(defaultViewExtent s = Some d \<longrightarrow> getDefaultViewExtent h s = d) \<and>
   (defaultViewExtent s = None \<and> dataExtent s = Some e \<longrightarrow>
      getDefaultViewExtent h s =
        \<lparr>ext_x = niceDomain h (host_xScale s) (ext_x e),
         ext_y = niceDomain h (host_yScale s) (ext_y e)\<rparr>) \<and>
   (defaultViewExtent s = None \<and> dataExtent s = None \<longrightarrow>
      getDefaultViewExtent h s = \<lparr>ext_x = (0, 1), ext_y = (0, 1)\<rparr>) \<and>
   (lineChart s \<noteq> None \<and> metadata_complete s \<longrightarrow>
      (\<exists>s'. onViewExtentReset h s = Inr s' \<and>
         viewExtent s' = (case defaultViewExtent s of Some d' \<Rightarrow> d' | None \<Rightarrow> derived_extent h s) \<and>
         map_option (viewBoxRect \<circ> coordinator) (lineChart s') = Some (extent_rect (viewExtent s')))) \<and>
   (lineChart s \<noteq> None \<and> metadata_complete s \<longrightarrow>
      (\<exists>s'. change_inputs h (no_update\<lparr>new_defaultViewExtent := Some (Some d)\<rparr>) s = Inr s' \<and>
         viewExtent s' = d)) \<and>
   (lineChart s \<noteq> None \<and> \<not> isDefaultViewExtentUpdated s \<and> defaultViewExtent s = Some d \<and>
    viewExtent s = d \<and> metadata_complete (s\<lparr>seriesData := ds\<rparr>) \<longrightarrow>
      (\<exists>s'. change_inputs h (no_update\<lparr>new_seriesData := Some ds\<rparr>) s = Inr s' \<and>
         viewExtent s' = d)) \<and>
   (lineChart s \<noteq> None \<and> \<not> isDefaultViewExtentUpdated s \<and> defaultViewExtent s = None \<and>
    areExtentsEqual (getDefaultViewExtent h s) (viewExtent s) \<and>
    metadata_complete (s\<lparr>seriesData := ds\<rparr>) \<longrightarrow>
      (\<exists>s'. change_inputs h (no_update\<lparr>new_seriesData := Some ds\<rparr>) s = Inr s' \<and>
         viewExtent s' = derived_extent h (s\<lparr>seriesData := ds\<rparr>))) \<and>
   viewExtent (LineChartComponent_new h) = \<lparr>ext_x = (0, 1), ext_y = (0, 1)\<rparr> \<and>
   (lineChart s = None \<longrightarrow>
      (\<exists>s'. change_inputs h u s = Inr s' \<and> viewExtent s' = viewExtent s \<and> lineChart s' = None)) \<and>
   (lineChart s = None \<and> maybeSetViewExtentToDefault s \<and>
    (getRendererType h (preferredRendererType s) = SVG \<or>
     getRendererType h (preferredRendererType s) = WEBGL) \<and> metadata_complete s \<longrightarrow>
      (\<exists>s'. ngAfterViewInit h s = Inr s' \<and> lineChart s' \<noteq> None \<and>
         viewExtent s' = (case defaultViewExtent s of Some d' \<Rightarrow> d' | None \<Rightarrow> derived_extent h s)))"
proof -
  have reset: "\<exists>s'. onViewExtentReset h s = Inr s' \<and>
         viewExtent s' = (case defaultViewExtent s of Some d' \<Rightarrow> d' | None \<Rightarrow> derived_extent h s) \<and>
         map_option (viewBoxRect \<circ> coordinator) (lineChart s') = Some (extent_rect (viewExtent s'))"
    if a: "lineChart s \<noteq> None" "metadata_complete s"
  proof -
    let ?s2 = "s\<lparr>maybeSetViewExtentToDefault := True\<rparr>"
    have 1: "lineChart ?s2 \<noteq> None" using a(1) by simp
    have 2: "metadata_complete ?s2" using a(2) by (simp add: metadata_complete_def)
    from updateProp_with_chart [OF 1 2, of h] show ?thesis
      by (cases "isDefaultViewExtentUpdated s"; cases "defaultViewExtent s")
        (auto simp: onViewExtentReset_def updateProp_viewExtent_def getDefaultViewExtent_def
           derived_extent_def Let_def)
  qed
  have newdef: "\<exists>s'. change_inputs h (no_update\<lparr>new_defaultViewExtent := Some (Some d)\<rparr>) s = Inr s' \<and>
         viewExtent s' = d"
    if a: "lineChart s \<noteq> None" "metadata_complete s"
  proof -
    let ?u = "no_update\<lparr>new_defaultViewExtent := Some (Some d)\<rparr>"
    have 1: "lineChart (assign_inputs ?u s) \<noteq> None" using a(1) by (simp add: assign_inputs_def)
    have 2: "metadata_complete (assign_inputs ?u s)"
      using a(2) by (simp add: metadata_complete_def assign_inputs_def no_update_def)
    from ngOnChanges_with_chart [OF 1 2, of h "changes_of ?u s"] show ?thesis
      by (auto simp: change_inputs_def changes_of_def assign_inputs_def no_update_def)
  qed
  have data: "\<exists>s'. change_inputs h (no_update\<lparr>new_seriesData := Some ds\<rparr>) s = Inr s' \<and>
         viewExtent s' = d"
    if a: "lineChart s \<noteq> None" "\<not> isDefaultViewExtentUpdated s" "defaultViewExtent s = Some d"
      "viewExtent s = d" "metadata_complete (s\<lparr>seriesData := ds\<rparr>)"
  proof -
    let ?u = "no_update\<lparr>new_seriesData := Some ds\<rparr>"
    have 1: "lineChart (assign_inputs ?u s) \<noteq> None" using a(1) by (simp add: assign_inputs_def)
    have 2: "metadata_complete (assign_inputs ?u s)"
      using a(5) by (simp add: metadata_complete_def assign_inputs_def no_update_def)
    from ngOnChanges_with_chart [OF 1 2, of h "changes_of ?u s"] a(2,3,4) show ?thesis
      by (auto simp: change_inputs_def changes_of_def assign_inputs_def no_update_def
          getDefaultViewExtent_def split: if_splits)
  qed
  have fresh: "viewExtent (LineChartComponent_new h) = \<lparr>ext_x = (0, 1), ext_y = (0, 1)\<rparr>"
    by (simp add: LineChartComponent_new_def DEFAULT_EXTENT_def)
  have g: "defaultViewExtent s = Some d \<longrightarrow> getDefaultViewExtent h s = d"
    "defaultViewExtent s = None \<and> dataExtent s = Some e \<longrightarrow>
      getDefaultViewExtent h s =
        \<lparr>ext_x = niceDomain h (host_xScale s) (ext_x e),
         ext_y = niceDomain h (host_yScale s) (ext_y e)\<rparr>"
    "defaultViewExtent s = None \<and> dataExtent s = None \<longrightarrow>
      getDefaultViewExtent h s = \<lparr>ext_x = (0, 1), ext_y = (0, 1)\<rparr>"
    by (simp_all add: getDefaultViewExtent_def DEFAULT_EXTENT_def)
  show ?thesis
    using g reset newdef data arriving_data [of s h ds] before_chart [of s h u]
      first_resolution [of s h] fresh
    by blast
qed

text \<open>
  The cases of the default, a reset, a new default, new data under a default, two data
  sets arriving at a measuring host (one of them empty), inputs bound before the view is
  initialised, and the view's initialisation.
\<close>

theorem default_view_extent_precedence_witness:
  "getDefaultViewExtent example_host (ready_component\<lparr>defaultViewExtent := Some explicit_default\<rparr>)
     = explicit_default \<and>
   getDefaultViewExtent example_host ready_component = \<lparr>ext_x = (-1, 2), ext_y = (-1, 2)\<rparr> \<and>
   getDefaultViewExtent example_host (LineChartComponent_new example_host)
     = \<lparr>ext_x = (0, 1), ext_y = (0, 1)\<rparr> \<and>
   (\<exists>s'. onViewExtentReset example_host (ready_component\<lparr>viewExtent := pan_extent\<rparr>) = Inr s' \<and>
      viewExtent s' = \<lparr>ext_x = (-1, 2), ext_y = (-1, 2)\<rparr> \<and>
      map_option (viewBoxRect \<circ> coordinator) (lineChart s') = Some (extent_rect (viewExtent s'))) \<and>
   (\<exists>s'. change_inputs example_host (no_update\<lparr>new_defaultViewExtent := Some (Some explicit_default)\<rparr>)
            ready_component = Inr s' \<and> viewExtent s' = explicit_default) \<and>
   (\<exists>s'. change_inputs example_host (no_update\<lparr>new_seriesData := Some [series_a, series_a]\<rparr>)
            (ready_component\<lparr>defaultViewExtent := Some explicit_default, viewExtent := explicit_default\<rparr>)
          = Inr s' \<and> viewExtent s' = explicit_default) \<and>
   (\<exists>s'. change_inputs measuring_host (no_update\<lparr>new_seriesData := Some [series_a, series_a]\<rparr>)
            ready_component = Inr s' \<and> viewExtent s' = \<lparr>ext_x = (-1, 2), ext_y = (-1, 2)\<rparr>) \<and>
   (\<exists>s'. change_inputs measuring_host (no_update\<lparr>new_seriesData := Some []\<rparr>)
            ready_component = Inr s' \<and> viewExtent s' = \<lparr>ext_x = (-1, 1), ext_y = (-1, 1)\<rparr>) \<and>
   viewExtent (LineChartComponent_new example_host) = \<lparr>ext_x = (0, 1), ext_y = (0, 1)\<rparr> \<and>
   (\<exists>s'. change_inputs measuring_host first_inputs (LineChartComponent_new measuring_host) = Inr s' \<and>
      viewExtent s' = \<lparr>ext_x = (0, 1), ext_y = (0, 1)\<rparr> \<and> lineChart s' = None) \<and>
   (\<exists>s'. ngAfterViewInit measuring_host
            ((LineChartComponent_new measuring_host)
               \<lparr>seriesData := [series_b], seriesMetadataMap := [(''b'', md_b)]\<rparr>) = Inr s' \<and>
      lineChart s' \<noteq> None \<and> viewExtent s' = \<lparr>ext_x = (1, 3), ext_y = (4, 6)\<rparr>)"
proof -
  let ?n = "(LineChartComponent_new measuring_host)\<lparr>seriesData := [series_b], seriesMetadataMap := [(''b'', md_b)]\<rparr>"
  have c: "lineChart ready_component \<noteq> None" "metadata_complete ready_component"
    "\<not> isDefaultViewExtentUpdated ready_component"
    "defaultViewExtent ready_component = None"
    "dataExtent ready_component = Some \<lparr>ext_x = (0, 1), ext_y = (0, 1)\<rparr>"
    "metadata_complete (ready_component\<lparr>seriesData := [series_a, series_a]\<rparr>)"
    "metadata_complete (ready_component\<lparr>seriesData := []\<rparr>)"
    "areExtentsEqual (getDefaultViewExtent measuring_host ready_component) (viewExtent ready_component)"
    by (simp_all add: ready_component_def LineChartComponent_new_def metadata_complete_def
        series_a_def areExtentsEqual_def getDefaultViewExtent_def measuring_host_def
        example_host_def)
  have n: "defaultViewExtent (LineChartComponent_new example_host) = None"
    "dataExtent (LineChartComponent_new example_host) = None"
    "lineChart (LineChartComponent_new measuring_host) = None"
    "lineChart ?n = None" "maybeSetViewExtentToDefault ?n" "defaultViewExtent ?n = None"
    "getRendererType measuring_host (preferredRendererType ?n) = SVG"
    "metadata_complete ?n"
    by (simp_all add: LineChartComponent_new_def measuring_host_def example_host_def
        metadata_complete_def series_b_def)
  have e: "niceDomain example_host sc (0, 1) = (-1, 2)"
    "computeDataSeriesExtent example_host dd m = \<lparr>ext_x = (0, 1), ext_y = (0, 1)\<rparr>" for sc dd m
    by (simp_all add: example_host_def)
  have m: "derived_extent measuring_host (ready_component\<lparr>seriesData := [series_a, series_a]\<rparr>)
             = \<lparr>ext_x = (-1, 2), ext_y = (-1, 2)\<rparr>"
    "derived_extent measuring_host (ready_component\<lparr>seriesData := []\<rparr>)
             = \<lparr>ext_x = (-1, 1), ext_y = (-1, 1)\<rparr>"
    "derived_extent measuring_host ?n = \<lparr>ext_x = (1, 3), ext_y = (4, 6)\<rparr>"
    "derived_extent example_host (ready_component\<lparr>viewExtent := pan_extent\<rparr>)
             = \<lparr>ext_x = (-1, 2), ext_y = (-1, 2)\<rparr>"
    by (simp_all add: derived_extent_def measuring_host_def example_host_def points_extent_def
        series_a_def series_b_def ready_component_def LineChartComponent_new_def)
  show ?thesis
    using default_view_extent_precedence
            [of "ready_component\<lparr>defaultViewExtent := Some explicit_default\<rparr>" explicit_default
                example_host]
      default_view_extent_precedence
            [of ready_component _ example_host "\<lparr>ext_x = (0, 1), ext_y = (0, 1)\<rparr>"]
      default_view_extent_precedence [of "LineChartComponent_new example_host" _ example_host]
      default_view_extent_precedence
            [of "ready_component\<lparr>viewExtent := pan_extent\<rparr>" explicit_default example_host]
      default_view_extent_precedence
            [of ready_component explicit_default example_host]
      default_view_extent_precedence
            [of "ready_component\<lparr>defaultViewExtent := Some explicit_default, viewExtent := explicit_default\<rparr>"
                explicit_default example_host _ "[series_a, series_a]"]
      default_view_extent_precedence
            [of ready_component _ measuring_host _ "[series_a, series_a]"]
      default_view_extent_precedence [of ready_component _ measuring_host _ "[]"]
      default_view_extent_precedence
            [of "LineChartComponent_new measuring_host" _ measuring_host _ _ first_inputs]
      default_view_extent_precedence [of ?n _ measuring_host]
      c n m
    by (simp add: e metadata_complete_def LineChartComponent_new_def DEFAULT_EXTENT_def)
qed

text \<open>
  Claim C8, as stated, fails. After the user has panned to \<open>pan_extent\<close>, an update of
  \<open>defaultViewExtent\<close> alone (no reset operation, no change of data, visibility or scale)
  replaces the view box, and a change of the x scale type alone re-triggers the
  recomputation of the default extent and replaces it as well.
\<close>

theorem manual_view_box_counterexample:
  "map_sum id viewExtent panned_component = Inr pan_extent \<and>
   map_sum id viewExtent
     (then_run panned_component
        (change_inputs example_host (no_update\<lparr>new_defaultViewExtent := Some (Some explicit_default)\<rparr>)))
     = Inr explicit_default \<and>
   map_sum id viewExtent
     (then_run panned_component
        (change_inputs example_host (no_update\<lparr>new_xScaleType := Some LOG10\<rparr>)))
     = Inr \<lparr>ext_x = (-1, 2), ext_y = (-1, 2)\<rparr>"
  by (simp add: panned_component_def component_defs chart_defs example_defs Let_def)

text \<open>
  Claim C8, amended. Take a component with a chart and no view-extent change pending.
  A view box that differs from the current default extent, as after a manual pan or zoom,
  is left unchanged by every update of the inputs that changes neither a scale type nor
  \<open>defaultViewExtent\<close>: a metadata-only update and a change of the data set alike. After
  a manual pan, a metadata update in which every entry keeps the visibility of its
  previous entry (a change of color only, say) leaves the view box unchanged. The view box
  is replaced by the recomputed default extent on a change of scale type and on the
  explicit reset operation, and by a newly supplied \<open>defaultViewExtent\<close>.
\<close>

theorem manual_view_box_kept:
  assumes "lineChart s \<noteq> None" and "\<not> isDefaultViewExtentUpdated s"
    and "\<not> maybeSetViewExtentToDefault s"
  shows
   "(new_xScaleType u = None \<and> new_yScaleType u = None \<and> new_defaultViewExtent u = None \<and>
     \<not> areExtentsEqual (getDefaultViewExtent h s) (viewExtent s) \<and>
     metadata_complete (assign_inputs u s) \<longrightarrow>
       (\<exists>s'. change_inputs h u s = Inr s' \<and> viewExtent s' = viewExtent s)) \<and>
    (metadata_complete s \<and> metadata_complete (s\<lparr>seriesMetadataMap := m\<rparr>) \<and>
     keeps_visibility (seriesMetadataMap s) m \<longrightarrow>
       (\<exists>s1 s2. onViewExtentChanged h v s = Inr s1 \<and> viewExtent s1 = v \<and>
          change_inputs h (no_update\<lparr>new_seriesMetadataMap := Some m\<rparr>) s1 = Inr s2 \<and>
          viewExtent s2 = v)) \<and>
    ((new_xScaleType u \<noteq> None \<or> new_yScaleType u \<noteq> None) \<and> new_defaultViewExtent u = None \<and>
     metadata_complete (assign_inputs u s) \<longrightarrow>
       (\<exists>s'. change_inputs h u s = Inr s' \<and> viewExtent s' = getDefaultViewExtent h s')) \<and>
    (new_defaultViewExtent u = Some (Some d) \<and> metadata_complete (assign_inputs u s) \<longrightarrow>
       (\<exists>s'. change_inputs h u s = Inr s' \<and> viewExtent s' = d)) \<and>
    (metadata_complete s \<longrightarrow>
       (\<exists>s'. onViewExtentReset h s = Inr s' \<and> viewExtent s' = getDefaultViewExtent h s'))"
proof -
  have chart: "lineChart (assign_inputs u s) \<noteq> None" using assms(1) by (simp add: assign_inputs_def)
  have flag: "isDefaultViewExtentUpdated (assign_inputs u s) = False"
    "viewExtent (assign_inputs u s) = viewExtent s"
    using assms(2) by (simp_all add: assign_inputs_def)
  have upd: "\<exists>s'. change_inputs h u s = Inr s' \<and>
           viewExtent s' =
             (case (if new_defaultViewExtent u \<noteq> None then defaultViewExtent (assign_inputs u s) else None) of
                Some d \<Rightarrow> d
              | None \<Rightarrow>
                  if shouldResetViewExtent h (changes_of u s) (ngOnChanges_flags (changes_of u s) (assign_inputs u s))
                  then getDefaultViewExtent h s' else viewExtent s)"
    if "metadata_complete (assign_inputs u s)"
  proof -
    from ngOnChanges_with_chart [OF chart that, of h "changes_of u s"]
    obtain s' where s': "ngOnChanges h (changes_of u s) (assign_inputs u s) = Inr s'"
      "viewExtent s' =
         (case (if ch_defaultViewExtent (changes_of u s) \<or> isDefaultViewExtentUpdated (assign_inputs u s)
                then defaultViewExtent (assign_inputs u s) else None) of
            Some d \<Rightarrow> d
          | None \<Rightarrow>
              if shouldResetViewExtent h (changes_of u s) (ngOnChanges_flags (changes_of u s) (assign_inputs u s))
              then getDefaultViewExtent h s' else viewExtent (assign_inputs u s))"
      by blast
    from s'(2) have "viewExtent s' =
             (case (if new_defaultViewExtent u \<noteq> None then defaultViewExtent (assign_inputs u s) else None) of
                Some d \<Rightarrow> d
              | None \<Rightarrow>
                  if shouldResetViewExtent h (changes_of u s) (ngOnChanges_flags (changes_of u s) (assign_inputs u s))
                  then getDefaultViewExtent h s' else viewExtent s)"
      by (simp only: flag changes_of_fields simp_thms)
    with s'(1) show ?thesis unfolding change_inputs_def by blast
  qed
  have A: "\<exists>s'. change_inputs h u s = Inr s' \<and> viewExtent s' = viewExtent s"
    if a: "new_xScaleType u = None" "new_yScaleType u = None" "new_defaultViewExtent u = None"
      "\<not> areExtentsEqual (getDefaultViewExtent h s) (viewExtent s)"
      "metadata_complete (assign_inputs u s)"
  proof -
    have "getDefaultViewExtent h (ngOnChanges_flags (changes_of u s) (assign_inputs u s)) =
          getDefaultViewExtent h s"
      using a(1,2,3)
      by (simp add: getDefaultViewExtent_def changes_of_fields assign_inputs_def split: option.splits)
    then have "\<not> shouldResetViewExtent h (changes_of u s) (ngOnChanges_flags (changes_of u s) (assign_inputs u s))"
      using a(1,2,4) by (simp add: shouldResetViewExtent_def changes_of_def assign_inputs_def)
    with upd [OF a(5)] a(3) show ?thesis by auto
  qed
  have C: "\<exists>s'. change_inputs h u s = Inr s' \<and> viewExtent s' = getDefaultViewExtent h s'"
    if a: "new_xScaleType u \<noteq> None \<or> new_yScaleType u \<noteq> None" "new_defaultViewExtent u = None"
      "metadata_complete (assign_inputs u s)"
  proof -
    have "shouldResetViewExtent h (changes_of u s) (ngOnChanges_flags (changes_of u s) (assign_inputs u s))"
      using a(1) by (auto simp: shouldResetViewExtent_def changes_of_def)
    with upd [OF a(3)] a(2) show ?thesis by auto
  qed
  have D: "\<exists>s'. change_inputs h u s = Inr s' \<and> viewExtent s' = d"
    if a: "new_defaultViewExtent u = Some (Some d)" "metadata_complete (assign_inputs u s)"
    using upd [OF a(2)] a(1) by (auto simp: assign_inputs_def)
  have E: "\<exists>s'. onViewExtentReset h s = Inr s' \<and> viewExtent s' = getDefaultViewExtent h s'"
    if a: "metadata_complete s"
    using event_with_chart(2) [OF assms(1) a assms(2), of h] by blast
  have B: "\<exists>s1 s2. onViewExtentChanged h v s = Inr s1 \<and> viewExtent s1 = v \<and>
          change_inputs h (no_update\<lparr>new_seriesMetadataMap := Some m\<rparr>) s1 = Inr s2 \<and>
          viewExtent s2 = v"
    if a: "metadata_complete s" "metadata_complete (s\<lparr>seriesMetadataMap := m\<rparr>)"
      "keeps_visibility (seriesMetadataMap s) m"
  proof -
    let ?u = "no_update\<lparr>new_seriesMetadataMap := Some m\<rparr>"
    from event_with_chart(1) [OF assms(1) a(1) assms(2), of h v] assms(3)
    obtain s1 where s1: "onViewExtentChanged h v s = Inr s1" "viewExtent s1 = v"
      "lineChart s1 \<noteq> None" "\<not> isDefaultViewExtentUpdated s1"
      "seriesData s1 = seriesData s" "seriesMetadataMap s1 = seriesMetadataMap s" by auto
    have 1: "lineChart (assign_inputs ?u s1) \<noteq> None" using s1(3) by (simp add: assign_inputs_def)
    have 2: "metadata_complete (assign_inputs ?u s1)"
      using a(2) s1(5) by (simp add: metadata_complete_def assign_inputs_def no_update_def)
    have "\<not> visibility_loop (Some (seriesMetadataMap s1)) m"
      using keeps_visibility_loop [OF a(3)] s1(6) by simp
    then have 3: "\<not> shouldResetViewExtent h (changes_of ?u s1)
                    (ngOnChanges_flags (changes_of ?u s1) (assign_inputs ?u s1))"
      by (simp add: shouldResetViewExtent_def changes_of_def assign_inputs_def no_update_def)
    from ngOnChanges_with_chart [OF 1 2, of h "changes_of ?u s1"] 3 s1(2,4)
    have "\<exists>s2. change_inputs h ?u s1 = Inr s2 \<and> viewExtent s2 = v"
      by (auto simp: change_inputs_def changes_of_def assign_inputs_def no_update_def)
    with s1(1,2) show ?thesis by blast
  qed
  show ?thesis using A B C D E by blast
qed

text \<open>The component panned to \<open>pan_extent\<close>, under each of the five updates.\<close>

theorem manual_view_box_kept_witness:
  "(\<exists>s'. change_inputs example_host (no_update\<lparr>new_seriesData := Some [series_a, series_a]\<rparr>)
            (ready_component\<lparr>viewExtent := pan_extent\<rparr>) = Inr s' \<and> viewExtent s' = pan_extent) \<and>
   (\<exists>s1 s2. onViewExtentChanged example_host pan_extent ready_component = Inr s1 \<and>
       viewExtent s1 = pan_extent \<and>
       change_inputs example_host
         (no_update\<lparr>new_seriesMetadataMap := Some [(''a'', md_a\<lparr>color := ''#0f0''\<rparr>)]\<rparr>) s1 = Inr s2 \<and>
       viewExtent s2 = pan_extent) \<and>
   (\<exists>s'. change_inputs example_host (no_update\<lparr>new_xScaleType := Some LOG10\<rparr>)
            (ready_component\<lparr>viewExtent := pan_extent\<rparr>) = Inr s' \<and>
       viewExtent s' = getDefaultViewExtent example_host s') \<and>
   (\<exists>s'. change_inputs example_host (no_update\<lparr>new_defaultViewExtent := Some (Some explicit_default)\<rparr>)
            (ready_component\<lparr>viewExtent := pan_extent\<rparr>) = Inr s' \<and>
       viewExtent s' = explicit_default) \<and>
   (\<exists>s'. onViewExtentReset example_host (ready_component\<lparr>viewExtent := pan_extent\<rparr>) = Inr s' \<and>
       viewExtent s' = getDefaultViewExtent example_host s')"
proof -
  let ?p = "ready_component\<lparr>viewExtent := pan_extent\<rparr>"
  have p: "lineChart ?p \<noteq> None" "\<not> isDefaultViewExtentUpdated ?p"
    "\<not> maybeSetViewExtentToDefault ?p"
    and r: "lineChart ready_component \<noteq> None" "\<not> isDefaultViewExtentUpdated ready_component"
    "\<not> maybeSetViewExtentToDefault ready_component"
    by (simp_all add: ready_component_def LineChartComponent_new_def)
  have h: "\<not> areExtentsEqual (getDefaultViewExtent example_host ?p) (viewExtent ?p)"
    "metadata_complete ?p" "metadata_complete ready_component"
    "metadata_complete (assign_inputs (no_update\<lparr>new_seriesData := Some [series_a, series_a]\<rparr>) ?p)"
    "metadata_complete (assign_inputs (no_update\<lparr>new_xScaleType := Some LOG10\<rparr>) ?p)"
    "metadata_complete (assign_inputs (no_update\<lparr>new_defaultViewExtent := Some (Some explicit_default)\<rparr>) ?p)"
    "metadata_complete (ready_component\<lparr>seriesMetadataMap := [(''a'', md_a\<lparr>color := ''#0f0''\<rparr>)]\<rparr>)"
    "keeps_visibility (seriesMetadataMap ready_component) [(''a'', md_a\<lparr>color := ''#0f0''\<rparr>)]"
    by (simp_all add: ready_component_def LineChartComponent_new_def metadata_complete_def
        keeps_visibility_def assign_inputs_def no_update_def series_a_def md_a_def
        areExtentsEqual_def getDefaultViewExtent_def example_host_def pan_extent_def)
  show ?thesis
    using manual_view_box_kept [OF p, of "no_update\<lparr>new_seriesData := Some [series_a, series_a]\<rparr>" example_host]
      manual_view_box_kept [OF r, of _ example_host "[(''a'', md_a\<lparr>color := ''#0f0''\<rparr>)]" pan_extent]
      manual_view_box_kept [OF p, of "no_update\<lparr>new_xScaleType := Some LOG10\<rparr>" example_host]
      manual_view_box_kept [OF p, of "no_update\<lparr>new_defaultViewExtent := Some (Some explicit_default)\<rparr>"
         example_host _ _ explicit_default]
      h
    by (simp add: no_update_def)
qed


text \<open>
  The component reached by binding the inputs, initialising the view and panning has a
  chart and no view-extent change pending.
\<close>

lemma panned_component_ready:
  "map_sum id (\<lambda>s. lineChart s \<noteq> None) panned_component = Inr True \<and>
   map_sum id isDefaultViewExtentUpdated panned_component = Inr False \<and>
   map_sum id isViewExtentUpdated panned_component = Inr False \<and>
   map_sum id maybeSetViewExtentToDefault panned_component = Inr False"
  by (simp add: panned_component_def component_defs chart_defs example_defs Let_def)

end
